theory Spec2Isabelle
  imports Complex_Main "HOL-Library.AList" "HOL-Library.Char_ord" "HOL-Library.List_Lexorder"
    "HOL-Library.Log_Nat"
begin

section \<open>Order and payment pipeline of the marketplace backend\<close>

text \<open>
  A shallow embedding of \<^verbatim>\<open>orders.service.ts\<close>, \<^verbatim>\<open>payments.service.ts\<close> and
  \<^verbatim>\<open>paystack.service.ts\<close>. Conventions:
  \<^item> a document collection is an association list from \<^verbatim>\<open>_id\<close> to the document, in
    insertion order; \<^verbatim>\<open>findById\<close> is \<^term>\<open>map_of\<close>;
  \<^item> an \<^verbatim>\<open>ObjectId\<close> is its 24 digit hexadecimal string;
  \<^item> a \<^verbatim>\<open>Date\<close> is its ISO-8601 rendering in UTC (\<^verbatim>\<open>toISOString\<close>), whose lexicographic
    order is the order of the instants, and the instant \<^verbatim>\<open>new Date()\<close> yields is the
    parameter \<open>now\<close> of the operation;
  \<^item> amounts and quantities are whole numbers (\<^typ>\<open>int\<close>), fractions are rationals
    (\<^typ>\<open>rat\<close>). A JavaScript number is an IEEE 754 binary64 value: the products, the
    quotients and the sums of the pricing lines and of the currency conversion are rounded
    to binary64 (\<open>toNumber\<close> below); the running totals, the stock and the payout sums are
    sums and differences of whole numbers, which binary64 computes exactly below \<open>2^53\<close>,
    and are taken exactly;
  \<^item> an exception is the \<open>Inl\<close> of a sum; the \<^verbatim>\<open>catch\<close> blocks that wrap an error
    in a \<^verbatim>\<open>BadRequestException\<close> are written out.
  Descriptive fields that are copied from one document to another and never read by
  the operations below (addresses, images, brand, review and dispute fields) are left
  out of the records.
\<close>

subsection \<open>Identifiers, dates, exceptions\<close>

type_synonym oid = string
type_synonym date = string

definition hexDigits :: string where
  "hexDigits = ''0123456789abcdefABCDEF''"

text \<open>\<^verbatim>\<open>Types.ObjectId.isValid\<close> on a string: 24 hexadecimal digits.\<close>

definition ObjectId_isValid :: "string \<Rightarrow> bool" where
  "ObjectId_isValid s = (length s = 24 \<and> list_all (\<lambda>c. c \<in> set hexDigits) s)"

datatype exn =
    BadRequestException string
  | NotFoundException string
  | ForbiddenException string
  | ConflictException string
  | UnauthorizedException string
  | TypeError string
  | CastError string
  | Error string

fun message :: "exn \<Rightarrow> string" where
  "message (BadRequestException m) = m"
| "message (NotFoundException m) = m"
| "message (ForbiddenException m) = m"
| "message (ConflictException m) = m"
| "message (UnauthorizedException m) = m"
| "message (TypeError m) = m"
| "message (CastError m) = m"
| "message (Error m) = m"

definition castErrorMessage :: "string \<Rightarrow> string \<Rightarrow> string" where
  "castErrorMessage v model =
     ''Cast to ObjectId failed for value \"'' @ v @ ''\" (type string) at path \"_id\" for model \"''
       @ model @ ''\"''"

text \<open>\<^verbatim>\<open>String.prototype.toLowerCase\<close> on ASCII text.\<close>

definition lowerChar :: "char \<Rightarrow> char" where
  "lowerChar c =
     (if 65 \<le> (of_char c :: nat) \<and> (of_char c :: nat) \<le> 90 then char_of ((of_char c :: nat) + 32) else c)"

definition toLowerCase :: "string \<Rightarrow> string" where
  "toLowerCase s = map lowerChar s"

text \<open>\<^verbatim>\<open>new Types.ObjectId(s).toString()\<close>: the identifier in lower-case digits, the form in
  which the collections hold their keys and references.\<close>

definition ObjectId_str :: "string \<Rightarrow> oid" where
  "ObjectId_str s = toLowerCase s"

text \<open>\<^verbatim>\<open>Model.findById\<close>: a string that is no ObjectId makes the query fail with a
  CastError, otherwise the document or \<^verbatim>\<open>null\<close>.\<close>

definition findById :: "string \<Rightarrow> (oid \<times> 'a) list \<Rightarrow> string \<Rightarrow> exn + 'a option" where
  "findById model coll i =
     (if ObjectId_isValid i then Inr (map_of coll (ObjectId_str i))
      else Inl (CastError (castErrorMessage i model)))"

text \<open>A \<^verbatim>\<open>catch\<close> block that rethrows the exceptions of the listed classes and wraps every
  other error in a \<^verbatim>\<open>BadRequestException\<close> whose message has the given prefix.\<close>

definition rethrowOrWrap :: "(exn \<Rightarrow> bool) \<Rightarrow> string \<Rightarrow> exn \<Rightarrow> exn" where
  "rethrowOrWrap passes prefix e = (if passes e then e else BadRequestException (prefix @ message e))"

fun isBadRequest :: "exn \<Rightarrow> bool" where
  "isBadRequest (BadRequestException m) = True"
| "isBadRequest e = False"

fun isNotFound :: "exn \<Rightarrow> bool" where
  "isNotFound (NotFoundException m) = True"
| "isNotFound e = False"

fun isForbidden :: "exn \<Rightarrow> bool" where
  "isForbidden (ForbiddenException m) = True"
| "isForbidden e = False"

fun isUnauthorized :: "exn \<Rightarrow> bool" where
  "isUnauthorized (UnauthorizedException m) = True"
| "isUnauthorized e = False"

fun isConflict :: "exn \<Rightarrow> bool" where
  "isConflict (ConflictException m) = True"
| "isConflict e = False"

subsection \<open>Rendering numbers\<close>

definition digit_char :: "int \<Rightarrow> char" where
  "digit_char d = char_of (48 + d)"

function show_digits :: "int \<Rightarrow> string" where
  "show_digits n = (if n < 10 then [digit_char n] else show_digits (n div 10) @ [digit_char (n mod 10)])"
  by pat_completeness auto
termination
  by (relation "measure nat") auto

declare show_digits.simps [simp del]

definition show_int :: "int \<Rightarrow> string" where
  "show_int i = (if i < 0 then CHR ''-'' # show_digits (- i) else show_digits i)"

subsection \<open>Enumerations\<close>

text \<open>Modelled from the spec: \<^verbatim>\<open>common/enums/order.enum.ts\<close> is not among the sources. The
  members of \<open>OrderStatus\<close> are the keys of the transition table in
  \<^verbatim>\<open>validateStatusTransition\<close> (a \<^verbatim>\<open>Record<OrderStatus, _>\<close>, so it lists every member);
  those of \<open>PaymentStatus\<close> and \<open>PaymentMethod\<close> are the ones the services use. The string
  values are the lower-case names, as the item statuses of \<^verbatim>\<open>order-item.entity.ts\<close>.\<close>

datatype OrderStatus = PENDING | CONFIRMED | PROCESSING | SHIPPED | DELIVERED | CANCELLED | REFUNDED

fun OrderStatus_str :: "OrderStatus \<Rightarrow> string" where
  "OrderStatus_str PENDING = ''pending''"
| "OrderStatus_str CONFIRMED = ''confirmed''"
| "OrderStatus_str PROCESSING = ''processing''"
| "OrderStatus_str SHIPPED = ''shipped''"
| "OrderStatus_str DELIVERED = ''delivered''"
| "OrderStatus_str CANCELLED = ''cancelled''"
| "OrderStatus_str REFUNDED = ''refunded''"

datatype PaymentStatus = PAY_PENDING | PAY_COMPLETED | PAY_FAILED | PAY_REFUNDED

datatype PaymentMethod = CARD | BANK_TRANSFER | WALLET

datatype PaymentGateway = PAYSTACK | FLUTTERWAVE | STRIPE

fun PaymentGateway_str :: "PaymentGateway \<Rightarrow> string" where
  "PaymentGateway_str PAYSTACK = ''paystack''"
| "PaymentGateway_str FLUTTERWAVE = ''flutterwave''"
| "PaymentGateway_str STRIPE = ''stripe''"

subsection \<open>Documents\<close>

record user =
  u_firstName :: string
  u_lastName :: string
  u_email :: string

record product =
  p_title :: string
  p_sellerId :: oid
  p_sellingPrice :: int
  p_quantity :: int
  p_sold :: bool
  p_soldAt :: "date option"
  p_shippingDomestic :: "int option"

text \<open>\<open>p_shippingDomestic\<close> is \<^verbatim>\<open>product.shipping?.domestic\<close>: \<open>None\<close> when either the
  \<^verbatim>\<open>shipping\<close> object or its \<^verbatim>\<open>domestic\<close> field is missing.\<close>

subsection \<open>Numbers\<close>

text \<open>The result of an arithmetic operation of JavaScript is the exact result rounded to
  the nearest binary64 value, a tie going to the value whose last bit is even. A binary64
  value has 53 significant bits: for \<open>2^e \<le> |x| < 2^(e+1)\<close> the representable values
  around \<open>x\<close> are the multiples of \<open>2^(e-52)\<close>, and below \<open>2^-1022\<close> (the subnormal
  range) the multiples of \<open>2^-1074\<close>. \<open>exponentOf x\<close> is that \<open>e\<close> for a positive \<open>x\<close>.
  The exponent has no upper limit here: a result of magnitude \<open>2^1024\<close> or more, for which
  JavaScript has \<^verbatim>\<open>Infinity\<close>, is not represented.\<close>

definition exponentOf :: "rat \<Rightarrow> int" where
  "exponentOf x = (if 1 \<le> x then bitlen \<lfloor>x\<rfloor> - 1 else - bitlen (\<lceil>1 / x\<rceil> - 1))"

definition roundTiesToEven :: "rat \<Rightarrow> int" where
  "roundTiesToEven y =
     (let f = \<lfloor>y\<rfloor>; d = y - of_int f
      in if d < 1 / 2 then f else if 1 / 2 < d then f + 1 else if even f then f else f + 1)"

definition toNumber :: "rat \<Rightarrow> rat" where
  "toNumber x =
     (if x = 0 then 0
      else let u = 2 powi (max (exponentOf \<bar>x\<bar>) (- 1022) - 52)
           in of_int (roundTiesToEven (x / u)) * u)"

text \<open>The product and the sum of two whole numbers, as numbers: the rounded value of a
  whole number is a whole number (lemma \<open>toNumber_of_int_integral\<close>).\<close>

definition Number_times :: "int \<Rightarrow> int \<Rightarrow> int" where
  "Number_times a b = \<lfloor>toNumber (of_int a * of_int b)\<rfloor>"

definition Number_plus :: "int \<Rightarrow> int \<Rightarrow> int" where
  "Number_plus a b = \<lfloor>toNumber (of_int a + of_int b)\<rfloor>"

subsection \<open>Pricing calculator\<close>

text \<open>\<^verbatim>\<open>Math.round\<close>: the nearest integer, a tie going to the larger one; it is exact on
  its argument.\<close>

definition Math_round :: "rat \<Rightarrow> int" where
  "Math_round x = \<lfloor>x + 1 / 2\<rfloor>"

text \<open>\<^verbatim>\<open>Math.round(amount * 0.035)\<close>: the literal is the binary64 value nearest to 0.035, and
  the product is rounded before \<^verbatim>\<open>Math.round\<close> sees it.\<close>

definition calculateServiceFee :: "int \<Rightarrow> int" where
  "calculateServiceFee amount = Math_round (toNumber (of_int amount * toNumber 0.035))"

definition calculateTaxes :: "int \<Rightarrow> int" where
  "calculateTaxes amount = Math_round (toNumber (of_int amount * toNumber 0.075))"

record pricing =
  totalPrice :: int
  shippingCost :: int
  itemServiceFee :: int
  itemTaxes :: int
  itemTotal :: int

text \<open>The pricing lines of the loop body of \<^verbatim>\<open>calculateOrder\<close>;
  \<open>domestic\<close> is \<^verbatim>\<open>product.shipping?.domestic\<close>, and \<^verbatim>\<open>x || 0\<close> turns a missing value
  into 0.\<close>

definition orZero :: "int option \<Rightarrow> int" where
  "orZero v = (case v of None \<Rightarrow> 0 | Some x \<Rightarrow> x)"

definition itemPricing :: "int \<Rightarrow> int \<Rightarrow> int option \<Rightarrow> pricing" where
  "itemPricing unitPrice qty domestic =
     (let totalPrice = Number_times unitPrice qty;
          shippingCost = Number_times (orZero domestic) qty;
          itemServiceFee = calculateServiceFee totalPrice;
          itemTaxes = calculateTaxes (Number_plus totalPrice itemServiceFee);
          itemTotal =
            Number_plus (Number_plus (Number_plus totalPrice shippingCost) itemServiceFee) itemTaxes
      in \<lparr> totalPrice = totalPrice, shippingCost = shippingCost,
           itemServiceFee = itemServiceFee, itemTaxes = itemTaxes, itemTotal = itemTotal \<rparr>)"

text \<open>The breakdown as section 4.1 of the specification words it, over the naturals, with
  exact products, sums and roundings.\<close>

definition spec_pricing :: "nat \<Rightarrow> nat \<Rightarrow> nat \<Rightarrow> pricing" where
  "spec_pricing unitPrice qty domesticShipping =
     \<lparr> totalPrice = int (unitPrice * qty),
       shippingCost = int (domesticShipping * qty),
       itemServiceFee = round (real (unitPrice * qty) * 0.035),
       itemTaxes =
         round ((real (unitPrice * qty) + real_of_int (round (real (unitPrice * qty) * 0.035))) * 0.075),
       itemTotal =
         int (unitPrice * qty) + int (domesticShipping * qty)
           + round (real (unitPrice * qty) * 0.035)
           + round ((real (unitPrice * qty) + real_of_int (round (real (unitPrice * qty) * 0.035))) * 0.075) \<rparr>"

subsection \<open>Orders, order items, payments, and the store\<close>

record seller_payout =
  sp_sellerId :: oid
  sp_sellerName :: string
  sp_itemCount :: int
  sp_revenue :: int
  sp_serviceFee :: int
  sp_paid :: bool
  sp_payoutReference :: "string option"
  sp_paidAt :: "date option"

record order =
  o_orderNumber :: string
  o_buyerId :: oid
  o_status :: OrderStatus
  o_subtotal :: int
  o_totalShippingCost :: int
  o_totalServiceFee :: int
  o_totalTaxes :: int
  o_totalAmount :: int
  o_currency :: string
  o_itemCount :: int
  o_sellerCount :: nat
  o_sellerIds :: "oid list"
  o_sellerPayouts :: "seller_payout list"
  o_paymentStatus :: PaymentStatus
  o_paymentMethod :: "PaymentMethod option"
  o_paymentReference :: "string option"
  o_paymentGateway :: "PaymentGateway option"
  o_paidAt :: "date option"
  o_trackingNumber :: "string option"
  o_carrierName :: "string option"
  o_shippedAt :: "date option"
  o_deliveredAt :: "date option"
  o_confirmedAt :: "date option"
  o_processingAt :: "date option"
  o_cancelledAt :: "date option"
  o_cancellationReason :: "string option"
  o_cancelledBy :: "oid option"
  o_adminNotes :: "string option"
  o_statusHistory :: "string list"

text \<open>The schema of \<open>Order\<close> declares \<^verbatim>\<open>sellerIds\<close> and no \<^verbatim>\<open>sellerId\<close>.\<close>

record order_item =
  oi_orderId :: oid
  oi_productId :: oid
  oi_sellerId :: oid
  oi_productTitle :: string
  oi_quantity :: int
  oi_unitPrice :: int
  oi_totalPrice :: int
  oi_shippingCost :: int
  oi_itemServiceFee :: int
  oi_itemTaxes :: int
  oi_itemTotal :: int
  oi_sellerName :: string
  oi_sellerEmail :: string
  oi_sellerRevenue :: int
  oi_sellerPaid :: bool
  oi_sellerPayoutReference :: "string option"
  oi_sellerPaidAt :: "date option"
  oi_itemStatus :: string
  oi_cancelledAt :: "date option"
  oi_cancellationReason :: "string option"
  oi_available :: bool
  oi_availabilityMessage :: "string option"

record gw_customer =
  c_id :: int
  c_first_name :: "string option"
  c_last_name :: "string option"
  c_email :: string
  c_customer_code :: string
  c_phone :: "string option"
  c_risk_action :: string

text \<open>The \<^verbatim>\<open>data\<close> object of \<^verbatim>\<open>PayStackVerifyResponse\<close> and of \<^verbatim>\<open>PayStackWebhookDto\<close>, with
  the fields the services read; the card authorization is kept as the list of its
  fields.\<close>

record paystack_data =
  d_id :: int
  d_status :: string
  d_reference :: string
  d_message :: "string option"
  d_gateway_response :: string
  d_paid_at :: string
  d_channel :: string
  d_fees :: int
  d_ip_address :: string
  d_authorization :: "(string \<times> string) list"
  d_customer :: gw_customer

text \<open>The \<^verbatim>\<open>data\<close> object of \<^verbatim>\<open>PayStackInitializeResponse\<close>.\<close>

record init_data =
  authorization_url :: string
  access_code :: string
  init_reference :: string

record pay_customer =
  pc_email :: string
  pc_firstName :: "string option"
  pc_lastName :: "string option"
  pc_phone :: "string option"
  pc_customerId :: string
  pc_customerCode :: string

record payment =
  pay_reference :: string
  pay_orderId :: oid
  pay_userId :: oid
  pay_gateway :: PaymentGateway
  pay_status :: PaymentStatus
  pay_method :: "PaymentMethod option"
  pay_amount :: int
  pay_currency :: string
  pay_fees :: rat
  pay_netAmount :: "rat option"
  pay_gatewayTransactionId :: "string option"
  pay_gatewayReference :: "string option"
  pay_gatewayResponse :: "string option"
  pay_failureReason :: "string option"
  pay_authorizationUrl :: "string option"
  pay_accessCode :: "string option"
  pay_callbackUrl :: "string option"
  pay_gatewayMetadata :: "init_data option"
  pay_paidAt :: "date option"
  pay_failedAt :: "date option"
  pay_initiatedAt :: "date option"
  pay_completedAt :: "date option"
  pay_createdAt :: date
  pay_customer :: "pay_customer option"
  pay_authorization :: "(string \<times> string) list option"
  pay_webhookData :: "paystack_data option"
  pay_ipAddress :: "string option"
  pay_riskAction :: "string option"

text \<open>The store: the five collections, and the log of the references sent to the
  gateway's verification endpoint (the trace of the outbound calls).\<close>

record state =
  products :: "(oid \<times> product) list"
  users :: "(oid \<times> user) list"
  orders :: "(oid \<times> order) list"
  orderItems :: "order_item list"
  payments :: "(oid \<times> payment) list"
  gatewayCalls :: "string list"

subsection \<open>Order calculation\<close>

record order_item_dto =
  dto_productId :: string
  dto_quantity :: int

record calc_item =
  ci_productId :: string
  ci_productTitle :: string
  ci_unitPrice :: int
  ci_quantity :: int
  ci_totalPrice :: int
  ci_shippingCost :: int
  ci_itemServiceFee :: int
  ci_itemTaxes :: int
  ci_itemTotal :: int
  ci_sellerId :: oid
  ci_sellerName :: string
  ci_available :: bool
  ci_availabilityMessage :: "string option"

record calculation =
  items :: "calc_item list"
  subtotal :: int
  totalShippingCost :: int
  totalServiceFee :: int
  totalTaxes :: int
  couponDiscount :: int
  totalAmount :: int
  currency :: string
  itemCount :: int
  sellerCount :: nat
  unavailableItems :: "string list"
  errors :: "string list"

definition emptyResponse :: calculation where
  "emptyResponse =
     \<lparr> items = [], subtotal = 0, totalShippingCost = 0, totalServiceFee = 0, totalTaxes = 0,
       couponDiscount = 0, totalAmount = 0, currency = ''NGN'', itemCount = 0, sellerCount = 0,
       unavailableItems = [], errors = [] \<rparr>"

text \<open>\<^verbatim>\<open>Set.prototype.add\<close> on a set kept in insertion order.\<close>

definition Set_add :: "'a \<Rightarrow> 'a list \<Rightarrow> 'a list" where
  "Set_add x xs = (if x \<in> set xs then xs else xs @ [x])"

text \<open>The availability check of the loop body: the flag and the message.\<close>

definition checkAvailability :: "product \<Rightarrow> int \<Rightarrow> string \<Rightarrow> bool \<times> string option" where
  "checkAvailability product qty buyerId =
     (let available = (\<not> p_sold product \<and> p_quantity product \<ge> qty) in
      if p_sold product then (available, Some ''Product is no longer available'')
      else if p_quantity product < qty
        then (available, Some (''Only '' @ show_int (p_quantity product) @ '' items available''))
      else if p_sellerId product = buyerId then (False, Some ''You cannot buy your own product'')
      else (available, None))"

text \<open>One iteration of the loop of \<^verbatim>\<open>calculateOrder\<close> on the response and the set of seller
  ids. The product is read with its seller populated: a seller that does not exist is
  \<^verbatim>\<open>null\<close>, and reading its \<^verbatim>\<open>_id\<close> is a TypeError.\<close>

definition calcItemStep ::
  "state \<Rightarrow> string \<Rightarrow> order_item_dto \<Rightarrow> calculation \<times> oid list \<Rightarrow> exn + calculation \<times> oid list" where
  "calcItemStep s buyerId item acc =
     (let response = fst acc; sellerIds = snd acc; pid = dto_productId item in
      if \<not> ObjectId_isValid pid
        then Inr (response\<lparr> errors := errors response @ [''Invalid product ID: '' @ pid] \<rparr>, sellerIds)
      else case map_of (products s) (ObjectId_str pid) of
        None \<Rightarrow>
          Inr (response\<lparr> errors := errors response @ [''Product not found: '' @ pid],
                         unavailableItems := unavailableItems response @ [pid] \<rparr>, sellerIds)
      | Some product \<Rightarrow>
          (case map_of (users s) (p_sellerId product) of
            None \<Rightarrow> Inl (TypeError ''Cannot read properties of null (reading '_id')'')
          | Some seller \<Rightarrow>
              (let chk = checkAvailability product (dto_quantity item) buyerId;
                   available = fst chk;
                   pr = itemPricing (p_sellingPrice product) (dto_quantity item) (p_shippingDomestic product);
                   itemData =
                     \<lparr> ci_productId = pid, ci_productTitle = p_title product,
                       ci_unitPrice = p_sellingPrice product, ci_quantity = dto_quantity item,
                       ci_totalPrice = totalPrice pr, ci_shippingCost = shippingCost pr,
                       ci_itemServiceFee = itemServiceFee pr, ci_itemTaxes = itemTaxes pr,
                       ci_itemTotal = itemTotal pr, ci_sellerId = p_sellerId product,
                       ci_sellerName = u_firstName seller @ '' '' @ u_lastName seller,
                       ci_available = available, ci_availabilityMessage = snd chk \<rparr>;
                   r1 = (if \<not> available
                         then response\<lparr> unavailableItems := unavailableItems response @ [pid] \<rparr>
                         else response);
                   r2 = r1\<lparr> items := items r1 @ [itemData] \<rparr>;
                   sellerIds' = Set_add (p_sellerId product) sellerIds;
                   r3 = (if available
                         then r2\<lparr> subtotal := subtotal r2 + totalPrice pr,
                                  totalShippingCost := totalShippingCost r2 + shippingCost pr,
                                  totalServiceFee := totalServiceFee r2 + itemServiceFee pr,
                                  totalTaxes := totalTaxes r2 + itemTaxes pr,
                                  itemCount := itemCount r2 + dto_quantity item \<rparr>
                         else r2)
               in Inr (r3, sellerIds'))))"

fun calcLoop ::
  "state \<Rightarrow> string \<Rightarrow> order_item_dto list \<Rightarrow> calculation \<times> oid list \<Rightarrow> exn + calculation \<times> oid list" where
  "calcLoop s buyerId [] acc = Inr acc"
| "calcLoop s buyerId (item # rest) acc =
     (case calcItemStep s buyerId item acc of
        Inl e \<Rightarrow> Inl e
      | Inr acc' \<Rightarrow> calcLoop s buyerId rest acc')"

definition calculateOrder :: "state \<Rightarrow> order_item_dto list \<Rightarrow> string \<Rightarrow> exn + calculation" where
  "calculateOrder s dtoItems buyerId =
     (if \<not> ObjectId_isValid buyerId then Inl (BadRequestException ''Invalid buyer ID format'')
      else case calcLoop s buyerId dtoItems (emptyResponse, []) of
        Inl e \<Rightarrow> Inl (rethrowOrWrap isBadRequest ''Failed to calculate order: '' e)
      | Inr acc \<Rightarrow>
          (let response = (fst acc)\<lparr> sellerCount := length (snd acc) \<rparr> in
           Inr (response\<lparr> totalAmount :=
                  subtotal response + totalShippingCost response + totalServiceFee response
                    + totalTaxes response - couponDiscount response \<rparr>)))"

subsection \<open>Order creation and seller payouts\<close>

text \<open>\<^verbatim>\<open>preparellerPayouts\<close>: the \<^verbatim>\<open>Map\<close> from seller id to payout, in insertion order. The
  seller ids of the calculated items are those the products hold.\<close>

definition newPayout :: "calc_item \<Rightarrow> seller_payout" where
  "newPayout item =
     \<lparr> sp_sellerId = ci_sellerId item, sp_sellerName = ci_sellerName item, sp_itemCount = 0,
       sp_revenue = 0, sp_serviceFee = 0, sp_paid = False, sp_payoutReference = None,
       sp_paidAt = None \<rparr>"

definition payoutStep :: "calc_item \<Rightarrow> (oid \<times> seller_payout) list \<Rightarrow> (oid \<times> seller_payout) list" where
  "payoutStep item sellerMap =
     (let sellerId = ci_sellerId item;
          payout = (case map_of sellerMap sellerId of None \<Rightarrow> newPayout item | Some p \<Rightarrow> p)
      in AList.update sellerId
           (payout\<lparr> sp_itemCount := sp_itemCount payout + ci_quantity item,
                    sp_revenue := sp_revenue payout + (ci_totalPrice item - ci_itemServiceFee item),
                    sp_serviceFee := sp_serviceFee payout + ci_itemServiceFee item \<rparr>)
           sellerMap)"

definition preparellerPayouts :: "calc_item list \<Rightarrow> seller_payout list" where
  "preparellerPayouts its = map snd (fold payoutStep its [])"

text \<open>\<^verbatim>\<open>createOrderItems\<close>: an item whose product or seller is not found is skipped. The
  schema of \<open>OrderItem\<close> requires a quantity of at least 1, and \<^verbatim>\<open>insertMany\<close> inserts
  nothing when a document fails validation.\<close>

definition buildOrderItem :: "state \<Rightarrow> oid \<Rightarrow> calc_item \<Rightarrow> order_item option" where
  "buildOrderItem s orderId calcItem =
     (case map_of (products s) (ObjectId_str (ci_productId calcItem)) of
        None \<Rightarrow> None
      | Some product \<Rightarrow>
          (case map_of (users s) (ObjectId_str (ci_sellerId calcItem)) of
             None \<Rightarrow> None
           | Some seller \<Rightarrow>
               Some \<lparr> oi_orderId = orderId,
                      oi_productId = ObjectId_str (ci_productId calcItem),
                      oi_sellerId = ObjectId_str (ci_sellerId calcItem),
                      oi_productTitle = p_title product,
                      oi_quantity = ci_quantity calcItem,
                      oi_unitPrice = ci_unitPrice calcItem,
                      oi_totalPrice = ci_totalPrice calcItem,
                      oi_shippingCost = ci_shippingCost calcItem,
                      oi_itemServiceFee = ci_itemServiceFee calcItem,
                      oi_itemTaxes = ci_itemTaxes calcItem,
                      oi_itemTotal = ci_itemTotal calcItem,
                      oi_sellerName = ci_sellerName calcItem,
                      oi_sellerEmail = u_email seller,
                      oi_sellerRevenue = ci_totalPrice calcItem - ci_itemServiceFee calcItem,
                      oi_sellerPaid = False,
                      oi_sellerPayoutReference = None,
                      oi_sellerPaidAt = None,
                      oi_itemStatus = ''pending'',
                      oi_cancelledAt = None,
                      oi_cancellationReason = None,
                      oi_available = ci_available calcItem,
                      oi_availabilityMessage = ci_availabilityMessage calcItem \<rparr>))"

definition createOrderItems :: "state \<Rightarrow> oid \<Rightarrow> calc_item list \<Rightarrow> exn + order_item list" where
  "createOrderItems s orderId calculatedItems =
     (let docs = List.map_filter (buildOrderItem s orderId) calculatedItems in
      if list_all (\<lambda>d. 1 \<le> oi_quantity d) docs then Inr docs
      else Inl (Error ''OrderItem validation failed: quantity is less than minimum allowed value (1)''))"

fun joinWith :: "string \<Rightarrow> string list \<Rightarrow> string" where
  "joinWith sep [] = []"
| "joinWith sep [x] = x"
| "joinWith sep (x # y # ys) = x @ sep @ joinWith sep (y # ys)"

text \<open>\<^verbatim>\<open>create\<close>. The order number (prefix, clock and a random number) and the \<^verbatim>\<open>_id\<close> of the
  new document are drawn by the runtime: they are parameters. Both are unique keys of the
  collection, so \<^verbatim>\<open>save\<close> fails on a duplicate. The \<^verbatim>\<open>Set\<close> that collects the seller ids
  holds freshly built \<^verbatim>\<open>ObjectId\<close> objects, which it compares by reference: it keeps
  one entry per item.\<close>

definition newOrder :: "string \<Rightarrow> string \<Rightarrow> date \<Rightarrow> calculation \<Rightarrow> order" where
  "newOrder orderNumber buyerId now calc =
     \<lparr> o_orderNumber = orderNumber,
       o_buyerId = ObjectId_str buyerId,
       o_status = PENDING,
       o_subtotal = subtotal calc,
       o_totalShippingCost = totalShippingCost calc,
       o_totalServiceFee = totalServiceFee calc,
       o_totalTaxes = totalTaxes calc,
       o_totalAmount = totalAmount calc,
       o_currency = currency calc,
       o_itemCount = itemCount calc,
       o_sellerCount = sellerCount calc,
       o_sellerIds = map (\<lambda>item. ObjectId_str (ci_sellerId item)) (items calc),
       o_sellerPayouts = preparellerPayouts (items calc),
       o_paymentStatus = PAY_PENDING,
       o_paymentMethod = None,
       o_paymentReference = None,
       o_paymentGateway = None,
       o_paidAt = None,
       o_trackingNumber = None,
       o_carrierName = None,
       o_shippedAt = None,
       o_deliveredAt = None,
       o_confirmedAt = None,
       o_processingAt = None,
       o_cancelledAt = None,
       o_cancellationReason = None,
       o_cancelledBy = None,
       o_adminNotes = None,
       o_statusHistory = [''Order created - '' @ now] \<rparr>"

definition createBody ::
  "state \<Rightarrow> order_item_dto list \<Rightarrow> string \<Rightarrow> string \<Rightarrow> oid \<Rightarrow> date \<Rightarrow> (exn + order \<times> order_item list) \<times> state" where
  "createBody s dtoItems buyerId orderNumber newId now =
     (if \<not> ObjectId_isValid buyerId then (Inl (BadRequestException ''Invalid buyer ID format''), s)
      else case calculateOrder s dtoItems buyerId of
        Inl e \<Rightarrow> (Inl e, s)
      | Inr calc \<Rightarrow>
          if errors calc \<noteq> []
            then (Inl (BadRequestException
                   (''Order validation failed: '' @ joinWith '', '' (errors calc))), s)
          else if unavailableItems calc \<noteq> []
            then (Inl (ConflictException
                   (''Some items are no longer available: '' @ joinWith '', '' (unavailableItems calc))), s)
          else if items calc = []
            then (Inl (BadRequestException ''No valid items in order''), s)
          else if newId \<in> set (map fst (orders s))
                  \<or> orderNumber \<in> set (map (\<lambda>e. o_orderNumber (snd e)) (orders s))
            then (Inl (Error ''E11000 duplicate key error''), s)
          else
            (let ord = newOrder orderNumber buyerId now calc;
                 s1 = s\<lparr> orders := orders s @ [(newId, ord)] \<rparr>
             in case createOrderItems s1 newId (items calc) of
                  Inl e \<Rightarrow> (Inl e, s1)
                | Inr docs \<Rightarrow> (Inr (ord, docs), s1\<lparr> orderItems := orderItems s1 @ docs \<rparr>)))"

definition create ::
  "state \<Rightarrow> order_item_dto list \<Rightarrow> string \<Rightarrow> string \<Rightarrow> oid \<Rightarrow> date \<Rightarrow> (exn + order \<times> order_item list) \<times> state" where
  "create s dtoItems buyerId orderNumber newId now =
     (case createBody s dtoItems buyerId orderNumber newId now of
        (Inl e, s') \<Rightarrow>
          (Inl (rethrowOrWrap (\<lambda>x. isNotFound x \<or> isBadRequest x \<or> isConflict x)
                  ''Failed to create order: '' e), s')
      | (Inr r, s') \<Rightarrow> (Inr r, s'))"





subsection \<open>Order state machine\<close>

fun validTransitions :: "OrderStatus \<Rightarrow> OrderStatus list" where
  "validTransitions PENDING = [CONFIRMED, CANCELLED]"
| "validTransitions CONFIRMED = [PROCESSING, CANCELLED]"
| "validTransitions PROCESSING = [SHIPPED, CANCELLED]"
| "validTransitions SHIPPED = [DELIVERED]"
| "validTransitions DELIVERED = [REFUNDED]"
| "validTransitions CANCELLED = []"
| "validTransitions REFUNDED = []"

definition validateStatusTransition :: "OrderStatus \<Rightarrow> OrderStatus \<Rightarrow> exn + unit" where
  "validateStatusTransition currentStatus newStatus =
     (if newStatus \<notin> set (validTransitions currentStatus)
      then Inl (BadRequestException
             (''Invalid status transition from '' @ OrderStatus_str currentStatus
                @ '' to '' @ OrderStatus_str newStatus))
      else Inr ())"

text \<open>\<^verbatim>\<open>order.sellerId\<close>: the schema of \<open>Order\<close> declares no such path, so the property of
  the document is \<^verbatim>\<open>undefined\<close>.\<close>

definition order_sellerId :: "order \<Rightarrow> oid option" where
  "order_sellerId ord = None"

text \<open>\<^verbatim>\<open>canUpdateOrderStatus\<close>. Both \<^verbatim>\<open>isBuyer\<close> and \<^verbatim>\<open>isSeller\<close> are computed before
  either is used; \<^verbatim>\<open>toString\<close> on \<^verbatim>\<open>undefined\<close> is a TypeError.\<close>

definition canUpdateOrderStatus :: "order \<Rightarrow> string \<Rightarrow> string \<Rightarrow> OrderStatus \<Rightarrow> exn + bool" where
  "canUpdateOrderStatus ord userId userRole newStatus =
     (if userRole = ''admin'' then Inr True
      else
        (let isBuyer = (o_buyerId ord = userId) in
         case order_sellerId ord of
           None \<Rightarrow> Inl (TypeError ''Cannot read properties of undefined (reading 'toString')'')
         | Some sellerId \<Rightarrow>
             (let isSeller = (sellerId = userId) in
              if isBuyer \<and> newStatus = CANCELLED then Inr True
              else if isSeller \<and> newStatus \<in> set [CONFIRMED, PROCESSING, SHIPPED] then Inr True
              else Inr False)))"

text \<open>\<^verbatim>\<open>updateProductAfterPayment\<close> and \<^verbatim>\<open>restoreProductQuantity\<close> on the product
  collection; a product that is not found is skipped.\<close>

definition updateProductAfterPayment :: "oid \<Rightarrow> int \<Rightarrow> date \<Rightarrow> (oid \<times> product) list \<Rightarrow> (oid \<times> product) list" where
  "updateProductAfterPayment productId quantity now ps =
     (case map_of ps productId of
        None \<Rightarrow> ps
      | Some product \<Rightarrow>
          (let newQuantity = p_quantity product - quantity in
           if newQuantity \<le> 0
             then AList.update productId
                    (product\<lparr> p_sold := True, p_soldAt := Some now, p_quantity := 0 \<rparr>) ps
           else AList.update productId
                    (product\<lparr> p_quantity := p_quantity product + (- quantity) \<rparr>) ps))"

definition restoreStep :: "order_item \<Rightarrow> (oid \<times> product) list \<Rightarrow> (oid \<times> product) list" where
  "restoreStep item ps =
     (case map_of ps (oi_productId item) of
        None \<Rightarrow> ps
      | Some product \<Rightarrow>
          AList.update (oi_productId item)
            (product\<lparr> p_quantity := p_quantity product + oi_quantity item,
                      p_sold := False, p_soldAt := None \<rparr>) ps)"

definition itemsOfOrder :: "state \<Rightarrow> oid \<Rightarrow> order_item list" where
  "itemsOfOrder s orderId = filter (\<lambda>item. oi_orderId item = orderId) (orderItems s)"

definition restoreProductQuantity :: "oid \<Rightarrow> state \<Rightarrow> state" where
  "restoreProductQuantity orderId s =
     s\<lparr> products := fold restoreStep (itemsOfOrder s orderId) (products s) \<rparr>"

record update_status_dto =
  us_status :: OrderStatus
  us_reason :: "string option"
  us_trackingNumber :: "string option"
  us_carrierName :: "string option"
  us_adminNotes :: "string option"

text \<open>Truthiness of an optional string: present and not empty.\<close>

definition truthy :: "string option \<Rightarrow> bool" where
  "truthy v = (case v of None \<Rightarrow> False | Some t \<Rightarrow> t \<noteq> [])"

text \<open>The \<^verbatim>\<open>switch\<close> of \<^verbatim>\<open>updateStatus\<close> on the target status, on the order in memory and
  the store. \<^verbatim>\<open>new Types.ObjectId(userId)\<close> throws on a string that is no ObjectId.\<close>

definition statusEffects ::
  "oid \<Rightarrow> update_status_dto \<Rightarrow> string \<Rightarrow> date \<Rightarrow> order \<Rightarrow> state \<Rightarrow> exn + order \<times> state" where
  "statusEffects orderKey dto userId now ord s =
     (case us_status dto of
        CONFIRMED \<Rightarrow> Inr (ord\<lparr> o_confirmedAt := Some now \<rparr>, s)
      | PROCESSING \<Rightarrow> Inr (ord\<lparr> o_processingAt := Some now \<rparr>, s)
      | SHIPPED \<Rightarrow>
          (let o1 = ord\<lparr> o_shippedAt := Some now \<rparr>;
               o2 = (if truthy (us_trackingNumber dto)
                     then o1\<lparr> o_trackingNumber := us_trackingNumber dto \<rparr> else o1);
               o3 = (if truthy (us_carrierName dto)
                     then o2\<lparr> o_carrierName := us_carrierName dto \<rparr> else o2)
           in Inr (o3, s))
      | DELIVERED \<Rightarrow> Inr (ord\<lparr> o_deliveredAt := Some now \<rparr>, s)
      | CANCELLED \<Rightarrow>
          (if \<not> ObjectId_isValid userId
           then Inl (Error ''input must be a 24 character hex string, 12 byte Uint8Array, or an integer'')
           else
             (let o1 = ord\<lparr> o_cancelledAt := Some now,
                            o_cancellationReason := us_reason dto,
                            o_cancelledBy := Some (ObjectId_str userId) \<rparr>;
                  s1 = restoreProductQuantity orderKey s;
                  s2 = s1\<lparr> orderItems :=
                           map (\<lambda>item. if oi_orderId item = orderKey
                                        then item\<lparr> oi_itemStatus := ''cancelled'',
                                                   oi_cancelledAt := Some now,
                                                   oi_cancellationReason := us_reason dto \<rparr>
                                        else item) (orderItems s1) \<rparr>
              in Inr (o1, s2)))
      | PENDING \<Rightarrow> Inr (ord, s)
      | REFUNDED \<Rightarrow> Inr (ord, s))"

definition statusHistoryEntry :: "update_status_dto \<Rightarrow> date \<Rightarrow> string" where
  "statusHistoryEntry dto now =
     ''Status changed to '' @ OrderStatus_str (us_status dto) @ '' - '' @ now
       @ (case us_reason dto of
            None \<Rightarrow> []
          | Some reason \<Rightarrow> if reason \<noteq> [] then '' - '' @ reason else [])"

definition updateStatusBody ::
  "state \<Rightarrow> string \<Rightarrow> update_status_dto \<Rightarrow> string \<Rightarrow> string \<Rightarrow> date \<Rightarrow> (exn + order) \<times> state" where
  "updateStatusBody s orderId dto userId userRole now =
     (if \<not> ObjectId_isValid orderId then (Inl (BadRequestException ''Invalid order ID format''), s)
      else case map_of (orders s) (ObjectId_str orderId) of
        None \<Rightarrow> (Inl (NotFoundException ''Order not found''), s)
      | Some ord \<Rightarrow>
          (case canUpdateOrderStatus ord userId userRole (us_status dto) of
             Inl e \<Rightarrow> (Inl e, s)
           | Inr canUpdate \<Rightarrow>
               if \<not> canUpdate
                 then (Inl (ForbiddenException
                        ''You do not have permission to update this order status''), s)
               else
                 (case validateStatusTransition (o_status ord) (us_status dto) of
                    Inl e \<Rightarrow> (Inl e, s)
                  | Inr u \<Rightarrow>
                      (case statusEffects (ObjectId_str orderId) dto userId now
                              (ord\<lparr> o_status := us_status dto \<rparr>) s of
                         Inl e \<Rightarrow> (Inl e, s)
                       | Inr (o1, s1) \<Rightarrow>
                           (let o2 = (if truthy (us_adminNotes dto) \<and> userRole = ''admin''
                                      then o1\<lparr> o_adminNotes := us_adminNotes dto \<rparr> else o1);
                                o3 = o2\<lparr> o_statusHistory :=
                                         o_statusHistory o2 @ [statusHistoryEntry dto now] \<rparr>
                            in (Inr o3,
                                s1\<lparr> orders := AList.update (ObjectId_str orderId) o3 (orders s1) \<rparr>))))))"

definition updateStatus ::
  "state \<Rightarrow> string \<Rightarrow> update_status_dto \<Rightarrow> string \<Rightarrow> string \<Rightarrow> date \<Rightarrow> (exn + order) \<times> state" where
  "updateStatus s orderId dto userId userRole now =
     (case updateStatusBody s orderId dto userId userRole now of
        (Inl e, s') \<Rightarrow>
          (Inl (rethrowOrWrap (\<lambda>x. isNotFound x \<or> isForbidden x \<or> isBadRequest x)
                  ''Failed to update order status: '' e), s')
      | (Inr r, s') \<Rightarrow> (Inr r, s'))"

text \<open>\<^verbatim>\<open>cancelOrder\<close>: the buyer or one of the sellers of the order (read from
  \<^verbatim>\<open>sellerIds\<close>), then \<^verbatim>\<open>updateStatus\<close> under the role \<^verbatim>\<open>user\<close>.\<close>

definition cancelOrderBody ::
  "state \<Rightarrow> string \<Rightarrow> string \<Rightarrow> string \<Rightarrow> date \<Rightarrow> (exn + order) \<times> state" where
  "cancelOrderBody s orderId reason userId now =
     (if \<not> ObjectId_isValid orderId then (Inl (BadRequestException ''Invalid order ID format''), s)
      else case map_of (orders s) (ObjectId_str orderId) of
        None \<Rightarrow> (Inl (NotFoundException ''Order not found''), s)
      | Some ord \<Rightarrow>
          (let isBuyer = (o_buyerId ord = userId);
               isSeller = (userId \<in> set (o_sellerIds ord))
           in if \<not> isBuyer \<and> \<not> isSeller
                then (Inl (ForbiddenException ''You do not have permission to cancel this order''), s)
              else if o_status ord \<in> set [DELIVERED, CANCELLED, REFUNDED]
                then (Inl (BadRequestException ''Order cannot be cancelled in current status''), s)
              else updateStatus s orderId
                     \<lparr> us_status = CANCELLED, us_reason = Some reason, us_trackingNumber = None,
                       us_carrierName = None, us_adminNotes = None \<rparr>
                     userId ''user'' now))"

definition cancelOrder ::
  "state \<Rightarrow> string \<Rightarrow> string \<Rightarrow> string \<Rightarrow> date \<Rightarrow> (exn + order) \<times> state" where
  "cancelOrder s orderId reason userId now =
     (case cancelOrderBody s orderId reason userId now of
        (Inl e, s') \<Rightarrow>
          (Inl (rethrowOrWrap (\<lambda>x. isNotFound x \<or> isForbidden x \<or> isBadRequest x)
                  ''Failed to cancel order: '' e), s')
      | (Inr r, s') \<Rightarrow> (Inr r, s'))"

text \<open>\<^verbatim>\<open>confirmPayment\<close>: every error, the missing order included, leaves as a
  \<^verbatim>\<open>BadRequestException\<close>. The items are read before the writes.\<close>

record payment_data =
  pdt_reference :: string
  pdt_method :: PaymentMethod
  pdt_gateway :: PaymentGateway

definition confirmPayment :: "state \<Rightarrow> string \<Rightarrow> payment_data \<Rightarrow> date \<Rightarrow> (exn + unit) \<times> state" where
  "confirmPayment s orderId paymentData now =
     (case findById ''Order'' (orders s) orderId of
        Inl e \<Rightarrow> (Inl (BadRequestException (''Failed to confirm payment: '' @ message e)), s)
      | Inr None \<Rightarrow> (Inl (BadRequestException ''Failed to confirm payment: Order not found''), s)
      | Inr (Some ord) \<Rightarrow>
          (let orderKey = ObjectId_str orderId;
               its = itemsOfOrder s orderKey;
               o1 = ord\<lparr> o_paymentStatus := PAY_COMPLETED,
                          o_paidAt := Some now,
                          o_paymentReference := Some (pdt_reference paymentData),
                          o_paymentMethod := Some (pdt_method paymentData),
                          o_paymentGateway := Some (pdt_gateway paymentData) \<rparr>;
               o2 = (if o_status o1 = PENDING
                     then o1\<lparr> o_status := CONFIRMED, o_confirmedAt := Some now \<rparr> else o1);
               o3 = o2\<lparr> o_statusHistory := o_statusHistory o2 @ [''Payment confirmed - '' @ now] \<rparr>;
               s1 = s\<lparr> orders := AList.update orderKey o3 (orders s) \<rparr>;
               s2 = s1\<lparr> orderItems :=
                        map (\<lambda>item. if oi_orderId item = orderKey
                                     then item\<lparr> oi_itemStatus := ''confirmed'' \<rparr> else item)
                          (orderItems s1) \<rparr>;
               s3 = s2\<lparr> products :=
                        fold (\<lambda>item. updateProductAfterPayment (oi_productId item) (oi_quantity item) now)
                          its (products s2) \<rparr>
           in (Inr (), s3)))"

subsection \<open>Payment gateway service\<close>

text \<open>
  The gateway is outside the program. Its two endpoints are parameters of the operations
  that call them: a function from the request to the response, or to the message of the
  failed request. The digest \<^verbatim>\<open>crypto.createHmac('sha512', key).update(text).digest('hex')\<close>
  and \<^verbatim>\<open>JSON.stringify\<close> on the parsed webhook body are parameters as well; every
  statement below holds for all of them.
\<close>

record verify_response =
  vr_status :: bool
  vr_data :: paystack_data

record init_request =
  ir_amount :: int
  ir_reference :: string
  ir_callback_url :: string
  ir_orderId :: string

record init_response =
  in_status :: bool
  in_data :: init_data

record webhook =
  wh_event :: string
  wh_data :: paystack_data

definition verifyWebhookSignature ::
  "(string \<Rightarrow> string \<Rightarrow> string) \<Rightarrow> string \<Rightarrow> string \<Rightarrow> string \<Rightarrow> bool" where
  "verifyWebhookSignature hmacSha512Hex secretKey payload signature =
     (hmacSha512Hex secretKey payload = signature)"

definition nairaToKobo :: "int \<Rightarrow> int" where
  "nairaToKobo nairaAmount = Math_round (toNumber (of_int nairaAmount * 100))"

definition koboToNaira :: "int \<Rightarrow> rat" where
  "koboToNaira koboAmount = toNumber (of_int koboAmount / 100)"

text \<open>\<^verbatim>\<open>PayStackService.verifyPayment\<close> and \<^verbatim>\<open>initializePayment\<close>: a failed request is
  rethrown as an \<^verbatim>\<open>Error\<close>.\<close>

definition paystackVerify :: "(string \<Rightarrow> string + verify_response) \<Rightarrow> string \<Rightarrow> exn + verify_response" where
  "paystackVerify gw reference =
     (case gw reference of
        Inl msg \<Rightarrow> Inl (Error (''Payment verification failed: '' @ msg))
      | Inr response \<Rightarrow> Inr response)"

definition paystackInitialize ::
  "(init_request \<Rightarrow> string + init_response) \<Rightarrow> init_request \<Rightarrow> exn + init_response" where
  "paystackInitialize gw paymentData =
     (case gw paymentData of
        Inl msg \<Rightarrow> Inl (Error (''Payment initialization failed: '' @ msg))
      | Inr response \<Rightarrow> Inr response)"

subsection \<open>Payments\<close>

definition mapPayStackChannelToMethod :: "string \<Rightarrow> PaymentMethod" where
  "mapPayStackChannelToMethod channel =
     (let c = toLowerCase channel in
      if c = ''card'' then CARD
      else if c = ''bank'' \<or> c = ''bank_transfer'' then BANK_TRANSFER
      else if c = ''ussd'' \<or> c = ''mobile_money'' then WALLET
      else CARD)"

text \<open>\<^verbatim>\<open>Model.findOne\<close>: the first document that matches.\<close>

definition findOne :: "('a \<Rightarrow> bool) \<Rightarrow> (oid \<times> 'a) list \<Rightarrow> (oid \<times> 'a) option" where
  "findOne P coll = find (\<lambda>e. P (snd e)) coll"

text \<open>\<^verbatim>\<open>Model.findByIdAndUpdate\<close> with a change of fields: the document with that id, if
  there is one, is changed.\<close>

definition findByIdAndUpdate :: "oid \<Rightarrow> ('a \<Rightarrow> 'a) \<Rightarrow> (oid \<times> 'a) list \<Rightarrow> (oid \<times> 'a) list" where
  "findByIdAndUpdate i f coll = AList.map_entry i f coll"

definition completedPayment :: "payment \<Rightarrow> paystack_data \<Rightarrow> date \<Rightarrow> payment \<Rightarrow> payment" where
  "completedPayment payment d now doc =
     doc\<lparr> pay_status := PAY_COMPLETED,
          pay_gatewayTransactionId := Some (show_int (d_id d)),
          pay_gatewayReference := Some (d_reference d),
          pay_gatewayResponse := Some (d_gateway_response d),
          pay_method := Some (mapPayStackChannelToMethod (d_channel d)),
          pay_fees := koboToNaira (d_fees d),
          pay_netAmount := Some (toNumber (of_int (pay_amount payment) - koboToNaira (d_fees d))),
          pay_paidAt := Some (d_paid_at d),
          pay_completedAt := Some now,
          pay_customer :=
            Some \<lparr> pc_email = c_email (d_customer d),
                   pc_firstName = c_first_name (d_customer d),
                   pc_lastName = c_last_name (d_customer d),
                   pc_phone = c_phone (d_customer d),
                   pc_customerId = show_int (c_id (d_customer d)),
                   pc_customerCode = c_customer_code (d_customer d) \<rparr>,
          pay_authorization := Some (d_authorization d),
          pay_webhookData := Some d,
          pay_ipAddress := Some (d_ip_address d),
          pay_riskAction := Some (c_risk_action (d_customer d)) \<rparr>"

definition failedPayment :: "paystack_data \<Rightarrow> date \<Rightarrow> payment \<Rightarrow> payment" where
  "failedPayment d now doc =
     doc\<lparr> pay_status := PAY_FAILED,
          pay_gatewayResponse := Some (d_gateway_response d),
          pay_failureReason := d_message d,
          pay_failedAt := Some now \<rparr>"

text \<open>\<^verbatim>\<open>processPaymentVerification\<close> for the payment document \<open>payment\<close> read under the id
  \<open>key\<close>. The payment is written before the order is confirmed, and stays written when
  the confirmation throws.\<close>

definition processPaymentVerification ::
  "state \<Rightarrow> oid \<Rightarrow> payment \<Rightarrow> verify_response \<Rightarrow> date \<Rightarrow> (exn + unit) \<times> state" where
  "processPaymentVerification s key payment verificationResult now =
     (let d = vr_data verificationResult;
          isSuccessful = (vr_status verificationResult \<and> d_status d = ''success'')
      in if isSuccessful
         then
           (let s1 = s\<lparr> payments := findByIdAndUpdate key (completedPayment payment d now) (payments s) \<rparr>
            in confirmPayment s1 (pay_orderId payment)
                 \<lparr> pdt_reference = pay_reference payment,
                   pdt_method = mapPayStackChannelToMethod (d_channel d),
                   pdt_gateway = pay_gateway payment \<rparr> now)
         else
           (Inr (), s\<lparr> payments := findByIdAndUpdate key (failedPayment d now) (payments s) \<rparr>))"

record verification_result =
  vres_message :: string
  vres_reference :: string
  vres_status :: PaymentStatus
  vres_amount :: int
  vres_currency :: string
  vres_paidAt :: "date option"
  vres_gatewayResponse :: "string option"
  vres_orderId :: string

definition verificationResultOf :: "string \<Rightarrow> payment \<Rightarrow> verification_result" where
  "verificationResultOf msg payment =
     \<lparr> vres_message = msg,
       vres_reference = pay_reference payment,
       vres_status = pay_status payment,
       vres_amount = pay_amount payment,
       vres_currency = pay_currency payment,
       vres_paidAt = pay_paidAt payment,
       vres_gatewayResponse = pay_gatewayResponse payment,
       vres_orderId = pay_orderId payment \<rparr>"

text \<open>\<^verbatim>\<open>verifyPayment\<close>. A call of the gateway is recorded in the log of the store before its
  answer is read.\<close>

definition verifyPaymentBody ::
  "(string \<Rightarrow> string + verify_response) \<Rightarrow> state \<Rightarrow> string \<Rightarrow> date \<Rightarrow> (exn + verification_result) \<times> state" where
  "verifyPaymentBody gw s reference now =
     (case findOne (\<lambda>p. pay_reference p = reference) (payments s) of
        None \<Rightarrow> (Inl (NotFoundException ''Payment record not found''), s)
      | Some (key, payment) \<Rightarrow>
          if pay_status payment = PAY_COMPLETED
            then (Inr (verificationResultOf ''Payment already verified'' payment), s)
          else
            (case pay_gateway payment of
               PAYSTACK \<Rightarrow>
                 (let s0 = s\<lparr> gatewayCalls := gatewayCalls s @ [reference] \<rparr> in
                  case paystackVerify gw reference of
                    Inl e \<Rightarrow> (Inl e, s0)
                  | Inr verificationResult \<Rightarrow>
                      (case processPaymentVerification s0 key payment verificationResult now of
                         (Inl e, s1) \<Rightarrow> (Inl e, s1)
                       | (Inr u, s1) \<Rightarrow>
                           (case map_of (payments s1) key of
                              None \<Rightarrow>
                                (Inl (TypeError ''Cannot read properties of null (reading 'status')''), s1)
                            | Some updatedPayment \<Rightarrow>
                                (Inr (verificationResultOf
                                        (if pay_status updatedPayment = PAY_COMPLETED
                                         then ''Payment verified successfully''
                                         else ''Payment verification failed'')
                                        updatedPayment), s1))))
             | FLUTTERWAVE \<Rightarrow>
                 (Inl (BadRequestException
                        (''Unsupported payment gateway: '' @ PaymentGateway_str (pay_gateway payment))), s)
             | STRIPE \<Rightarrow>
                 (Inl (BadRequestException
                        (''Unsupported payment gateway: '' @ PaymentGateway_str (pay_gateway payment))), s)))"

definition verifyPayment ::
  "(string \<Rightarrow> string + verify_response) \<Rightarrow> state \<Rightarrow> string \<Rightarrow> date \<Rightarrow> (exn + verification_result) \<times> state" where
  "verifyPayment gw s reference now =
     (case verifyPaymentBody gw s reference now of
        (Inl e, s') \<Rightarrow>
          (Inl (rethrowOrWrap (\<lambda>x. isNotFound x \<or> isBadRequest x) ''Payment verification failed: '' e), s')
      | (Inr r, s') \<Rightarrow> (Inr r, s'))"

text \<open>The webhook handlers. Both swallow every error; what was written before the error
  stays written.\<close>

definition handleSuccessfulPayment :: "state \<Rightarrow> paystack_data \<Rightarrow> date \<Rightarrow> state" where
  "handleSuccessfulPayment s paymentData now =
     (case findOne (\<lambda>p. pay_reference p = d_reference paymentData) (payments s) of
        None \<Rightarrow> s
      | Some (key, payment) \<Rightarrow>
          if pay_status payment = PAY_PENDING
          then snd (processPaymentVerification s key payment
                      \<lparr> vr_status = True, vr_data = paymentData \<rparr> now)
          else s)"

definition handleFailedPayment :: "state \<Rightarrow> paystack_data \<Rightarrow> date \<Rightarrow> state" where
  "handleFailedPayment s paymentData now =
     (case findOne (\<lambda>p. pay_reference p = d_reference paymentData) (payments s) of
        None \<Rightarrow> s
      | Some (key, payment) \<Rightarrow>
          if pay_status payment = PAY_PENDING
          then s\<lparr> payments := findByIdAndUpdate key (failedPayment paymentData now) (payments s) \<rparr>
          else s)"

definition handlePayStackWebhookBody ::
  "(string \<Rightarrow> string \<Rightarrow> string) \<Rightarrow> (webhook \<Rightarrow> string) \<Rightarrow> string
     \<Rightarrow> state \<Rightarrow> webhook \<Rightarrow> string \<Rightarrow> date \<Rightarrow> (exn + unit) \<times> state" where
  "handlePayStackWebhookBody hmacSha512Hex JSON_stringify secretKey s webhookData signature now =
     (let isValidSignature =
            verifyWebhookSignature hmacSha512Hex secretKey (JSON_stringify webhookData) signature
      in if \<not> isValidSignature then (Inl (BadRequestException ''Invalid webhook signature''), s)
         else if wh_event webhookData = ''charge.success''
           then (Inr (), handleSuccessfulPayment s (wh_data webhookData) now)
         else if wh_event webhookData = ''charge.failed''
           then (Inr (), handleFailedPayment s (wh_data webhookData) now)
         else (Inr (), s))"

definition handlePayStackWebhook ::
  "(string \<Rightarrow> string \<Rightarrow> string) \<Rightarrow> (webhook \<Rightarrow> string) \<Rightarrow> string
     \<Rightarrow> state \<Rightarrow> webhook \<Rightarrow> string \<Rightarrow> date \<Rightarrow> (exn + unit) \<times> state" where
  "handlePayStackWebhook hmacSha512Hex JSON_stringify secretKey s webhookData signature now =
     (case handlePayStackWebhookBody hmacSha512Hex JSON_stringify secretKey s webhookData signature now of
        (Inl e, s') \<Rightarrow> (Inl (BadRequestException (''Webhook processing failed: '' @ message e)), s')
      | (Inr r, s') \<Rightarrow> (Inr r, s'))"

text \<open>The controller of \<^verbatim>\<open>POST /payments/webhook/paystack\<close>: the signature header and the raw
  body may be missing; \<^verbatim>\<open>JSON.parse\<close> of the raw body is a parameter, \<open>None\<close> when it throws
  a SyntaxError. The service receives the parsed body, not the raw one.\<close>

definition paystackWebhookBody ::
  "(string \<Rightarrow> string \<Rightarrow> string) \<Rightarrow> (string \<Rightarrow> webhook option) \<Rightarrow> (webhook \<Rightarrow> string) \<Rightarrow> string
     \<Rightarrow> state \<Rightarrow> string option \<Rightarrow> string option \<Rightarrow> date \<Rightarrow> (exn + string) \<times> state" where
  "paystackWebhookBody hmacSha512Hex JSON_parse JSON_stringify secretKey s rawBody signature now =
     (if \<not> truthy signature then (Inl (BadRequestException ''Missing PayStack signature''), s)
      else case rawBody of
        None \<Rightarrow> (Inl (BadRequestException ''Missing request body''), s)
      | Some body \<Rightarrow>
          (case JSON_parse body of
             None \<Rightarrow> (Inl (Error ''Unexpected token in JSON''), s)
           | Some webhookData \<Rightarrow>
               (case handlePayStackWebhook hmacSha512Hex JSON_stringify secretKey s webhookData
                       (case signature of Some sig \<Rightarrow> sig | None \<Rightarrow> []) now of
                  (Inl e, s') \<Rightarrow> (Inl e, s')
                | (Inr u, s') \<Rightarrow> (Inr ''Webhook processed successfully'', s'))))"

definition paystackWebhook ::
  "(string \<Rightarrow> string \<Rightarrow> string) \<Rightarrow> (string \<Rightarrow> webhook option) \<Rightarrow> (webhook \<Rightarrow> string) \<Rightarrow> string
     \<Rightarrow> state \<Rightarrow> string option \<Rightarrow> string option \<Rightarrow> date \<Rightarrow> (exn + string) \<times> state" where
  "paystackWebhook hmacSha512Hex JSON_parse JSON_stringify secretKey s rawBody signature now =
     (case paystackWebhookBody hmacSha512Hex JSON_parse JSON_stringify secretKey s rawBody signature now of
        (Inl e, s') \<Rightarrow> (Inl (BadRequestException (''Webhook processing failed: '' @ message e)), s')
      | (Inr r, s') \<Rightarrow> (Inr r, s'))"

text \<open>\<^verbatim>\<open>initializePayment\<close>. The reference (prefix, clock and a random number), the
  \<^verbatim>\<open>_id\<close> of the new payment and the instant thirty minutes before \<open>now\<close> are drawn or
  computed by the runtime: they are parameters. The reference is a unique key.\<close>

record initialize_dto =
  ip_orderId :: string
  ip_gateway :: "PaymentGateway option"
  ip_callbackUrl :: "string option"

record initialization_result =
  ires_message :: string
  ires_reference :: string
  ires_authorizationUrl :: "string option"
  ires_accessCode :: "string option"
  ires_orderId :: string
  ires_amount :: int
  ires_currency :: string

definition initializePayStackPayment ::
  "(init_request \<Rightarrow> string + init_response) \<Rightarrow> oid \<Rightarrow> order \<Rightarrow> string \<Rightarrow> string \<Rightarrow> exn + init_data" where
  "initializePayStackPayment gw orderKey ord reference callbackUrl =
     (case paystackInitialize gw
             \<lparr> ir_amount = nairaToKobo (o_totalAmount ord), ir_reference = reference,
               ir_callback_url = callbackUrl, ir_orderId = orderKey \<rparr> of
        Inl e \<Rightarrow> Inl e
      | Inr response \<Rightarrow>
          if \<not> in_status response
          then Inl (BadRequestException ''Failed to initialize PayStack payment'')
          else Inr (in_data response))"

definition newPayment ::
  "string \<Rightarrow> oid \<Rightarrow> string \<Rightarrow> PaymentGateway \<Rightarrow> order \<Rightarrow> init_data \<Rightarrow> string \<Rightarrow> date \<Rightarrow> payment" where
  "newPayment reference orderKey userId gateway ord paymentResponse callbackUrl now =
     \<lparr> pay_reference = reference,
       pay_orderId = orderKey,
       pay_userId = ObjectId_str userId,
       pay_gateway = gateway,
       pay_status = PAY_PENDING,
       pay_method = None,
       pay_amount = o_totalAmount ord,
       pay_currency = o_currency ord,
       pay_fees = 0,
       pay_netAmount = None,
       pay_gatewayTransactionId = None,
       pay_gatewayReference = None,
       pay_gatewayResponse = None,
       pay_failureReason = None,
       pay_authorizationUrl = Some (authorization_url paymentResponse),
       pay_accessCode = Some (access_code paymentResponse),
       pay_callbackUrl = Some callbackUrl,
       pay_gatewayMetadata = Some paymentResponse,
       pay_paidAt = None,
       pay_failedAt = None,
       pay_initiatedAt = Some now,
       pay_completedAt = None,
       pay_createdAt = now,
       pay_customer = None,
       pay_authorization = None,
       pay_webhookData = None,
       pay_ipAddress = None,
       pay_riskAction = None \<rparr>"

definition initializePaymentBody ::
  "(init_request \<Rightarrow> string + init_response) \<Rightarrow> state \<Rightarrow> initialize_dto \<Rightarrow> string \<Rightarrow> string option
     \<Rightarrow> string \<Rightarrow> oid \<Rightarrow> date \<Rightarrow> date \<Rightarrow> (exn + initialization_result) \<times> state" where
  "initializePaymentBody gw s dto userId origin reference newId now thirtyMinutesAgo =
     (if \<not> ObjectId_isValid (ip_orderId dto)
        then (Inl (BadRequestException ''Invalid order ID format''), s)
      else case map_of (orders s) (ObjectId_str (ip_orderId dto)) of
        None \<Rightarrow> (Inl (NotFoundException ''Order not found''), s)
      | Some ord \<Rightarrow>
          if o_buyerId ord \<noteq> userId
            then (Inl (BadRequestException ''You can only pay for your own orders''), s)
          else if o_paymentStatus ord = PAY_COMPLETED
            then (Inl (ConflictException ''Order has already been paid''), s)
          else
            (let orderKey = ObjectId_str (ip_orderId dto);
                 existing = findOne (\<lambda>p. pay_orderId p = orderKey \<and> pay_status p = PAY_PENDING)
                              (payments s)
             in case (case existing of
                        Some (k, p) \<Rightarrow> if pay_createdAt p > thirtyMinutesAgo then Some p else None
                      | None \<Rightarrow> None) of
                  Some p \<Rightarrow>
                    (Inr \<lparr> ires_message = ''Payment already initialized'',
                           ires_reference = pay_reference p,
                           ires_authorizationUrl = pay_authorizationUrl p,
                           ires_accessCode = pay_accessCode p,
                           ires_orderId = orderKey,
                           ires_amount = pay_amount p,
                           ires_currency = pay_currency p \<rparr>, s)
                | None \<Rightarrow>
                    (let s1 = (case existing of
                                 Some (k, p) \<Rightarrow>
                                   s\<lparr> payments :=
                                        findByIdAndUpdate k
                                          (\<lambda>doc. doc\<lparr> pay_status := PAY_FAILED,
                                                       pay_failureReason := Some ''Payment expired'',
                                                       pay_failedAt := Some now \<rparr>)
                                          (payments s) \<rparr>
                               | None \<Rightarrow> s);
                         callbackUrl =
                           (if truthy (ip_callbackUrl dto)
                            then (case ip_callbackUrl dto of Some u \<Rightarrow> u | None \<Rightarrow> [])
                            else (case origin of Some v \<Rightarrow> v | None \<Rightarrow> ''undefined'')
                                   @ ''/checkout/callback'');
                         gateway = (case ip_gateway dto of Some g \<Rightarrow> g | None \<Rightarrow> PAYSTACK)
                     in case (case gateway of
                                PAYSTACK \<Rightarrow> initializePayStackPayment gw orderKey ord reference callbackUrl
                              | FLUTTERWAVE \<Rightarrow>
                                  Inl (BadRequestException
                                         (''Unsupported payment gateway: '' @ PaymentGateway_str gateway))
                              | STRIPE \<Rightarrow>
                                  Inl (BadRequestException
                                         (''Unsupported payment gateway: '' @ PaymentGateway_str gateway))) of
                          Inl e \<Rightarrow> (Inl e, s1)
                        | Inr paymentResponse \<Rightarrow>
                            if newId \<in> set (map fst (payments s1))
                                 \<or> reference \<in> set (map (\<lambda>e. pay_reference (snd e)) (payments s1))
                              then (Inl (Error ''E11000 duplicate key error''), s1)
                            else
                              (Inr \<lparr> ires_message = ''Payment initialized successfully'',
                                     ires_reference = reference,
                                     ires_authorizationUrl = Some (authorization_url paymentResponse),
                                     ires_accessCode = Some (access_code paymentResponse),
                                     ires_orderId = orderKey,
                                     ires_amount = o_totalAmount ord,
                                     ires_currency = o_currency ord \<rparr>,
                               s1\<lparr> payments := payments s1 @
                                     [(newId, newPayment reference orderKey userId gateway ord
                                                paymentResponse callbackUrl now)] \<rparr>))))"

definition initializePayment ::
  "(init_request \<Rightarrow> string + init_response) \<Rightarrow> state \<Rightarrow> initialize_dto \<Rightarrow> string \<Rightarrow> string option
     \<Rightarrow> string \<Rightarrow> oid \<Rightarrow> date \<Rightarrow> date \<Rightarrow> (exn + initialization_result) \<times> state" where
  "initializePayment gw s dto userId origin reference newId now thirtyMinutesAgo =
     (case initializePaymentBody gw s dto userId origin reference newId now thirtyMinutesAgo of
        (Inl e, s') \<Rightarrow>
          (Inl (rethrowOrWrap (\<lambda>x. isNotFound x \<or> isBadRequest x \<or> isConflict x)
                  ''Failed to initialize payment: '' e), s')
      | (Inr r, s') \<Rightarrow> (Inr r, s'))"

section \<open>Notions used in the statements\<close>

subsection \<open>Numbers\<close>

text \<open>The distance between the binary64 values around \<open>x\<close>.\<close>

definition ulp :: "rat \<Rightarrow> rat" where
  "ulp x = 2 powi (max (exponentOf \<bar>x\<bar>) (- 1022) - 52)"

subsection \<open>Order calculation\<close>








subsection \<open>Stock\<close>



subsection \<open>Payment confirmation\<close>

text \<open>The order after a confirmed payment, as section 4.4 of the specification words it:
  payment status, time, reference, method and gateway are set, a pending order becomes
  confirmed, and the history gains an entry.\<close>

definition confirmedOrder :: "order \<Rightarrow> payment_data \<Rightarrow> date \<Rightarrow> order" where
  "confirmedOrder ord paymentData now =
     (if o_status ord = PENDING
      then ord\<lparr> o_paymentStatus := PAY_COMPLETED, o_paidAt := Some now,
                o_paymentReference := Some (pdt_reference paymentData),
                o_paymentMethod := Some (pdt_method paymentData),
                o_paymentGateway := Some (pdt_gateway paymentData),
                o_status := CONFIRMED, o_confirmedAt := Some now,
                o_statusHistory := o_statusHistory ord @ [''Payment confirmed - '' @ now] \<rparr>
      else ord\<lparr> o_paymentStatus := PAY_COMPLETED, o_paidAt := Some now,
                o_paymentReference := Some (pdt_reference paymentData),
                o_paymentMethod := Some (pdt_method paymentData),
                o_paymentGateway := Some (pdt_gateway paymentData),
                o_statusHistory := o_statusHistory ord @ [''Payment confirmed - '' @ now] \<rparr>)"

subsection \<open>Seller payouts\<close>




subsection \<open>Payments\<close>

text \<open>Every payment of the store is a PayStack payment: what \<^verbatim>\<open>initializePayment\<close>, the one
  operation that stores payments, establishes.\<close>

definition paystackOnly :: "state \<Rightarrow> bool" where
  "paystackOnly s = list_all (\<lambda>e. pay_gateway (snd e) = PAYSTACK) (payments s)"

section \<open>Example data\<close>

definition ex_sellerA :: oid where "ex_sellerA = ''aaaaaaaaaaaaaaaaaaaaaaaa''"
definition ex_sellerB :: oid where "ex_sellerB = ''bbbbbbbbbbbbbbbbbbbbbbbb''"
definition ex_buyer :: oid where "ex_buyer = ''cccccccccccccccccccccccc''"
definition ex_productA :: oid where "ex_productA = ''111111111111111111111111''"
definition ex_productB :: oid where "ex_productB = ''222222222222222222222222''"

text \<open>Two sellers with one product each; the second product is sold out.\<close>

definition ex_state :: state where
  "ex_state =
     \<lparr> products =
         [(ex_productA, \<lparr> p_title = ''Bag'', p_sellerId = ex_sellerA, p_sellingPrice = 25000,
                          p_quantity = 5, p_sold = False, p_soldAt = None,
                          p_shippingDomestic = Some 1250 \<rparr>),
          (ex_productB, \<lparr> p_title = ''Watch'', p_sellerId = ex_sellerB, p_sellingPrice = 90000,
                          p_quantity = 0, p_sold = True, p_soldAt = Some ''2025-01-01T00:00:00.000Z'',
                          p_shippingDomestic = None \<rparr>)],
       users =
         [(ex_sellerA, \<lparr> u_firstName = ''Ada'', u_lastName = ''Obi'', u_email = ''ada@example.com'' \<rparr>),
          (ex_sellerB, \<lparr> u_firstName = ''Bayo'', u_lastName = ''Ade'', u_email = ''bayo@example.com'' \<rparr>),
          (ex_buyer, \<lparr> u_firstName = ''Chi'', u_lastName = ''Eze'', u_email = ''chi@example.com'' \<rparr>)],
       orders = [], orderItems = [], payments = [], gatewayCalls = [] \<rparr>"


text \<open>The store after the buyer has ordered two units of the first product, and that
  store after an administrator has cancelled the order.\<close>

definition ex_orderId :: oid where "ex_orderId = ''0123456789abcdef01234567''"
definition ex_admin :: oid where "ex_admin = ''dddddddddddddddddddddddd''"
definition ex_now :: date where "ex_now = ''2025-06-01T10:00:00.000Z''"
definition ex_later :: date where "ex_later = ''2025-06-02T08:30:00.000Z''"

definition ex_cartA :: "order_item_dto list" where
  "ex_cartA = [\<lparr> dto_productId = ex_productA, dto_quantity = 2 \<rparr>]"

definition ex_shop :: state where
  "ex_shop = snd (create ex_state ex_cartA ex_buyer ''ORD1748772000000123'' ex_orderId ex_now)"

definition ex_toStatus :: "OrderStatus \<Rightarrow> update_status_dto" where
  "ex_toStatus st =
     \<lparr> us_status = st, us_reason = Some ''Ordered by mistake'', us_trackingNumber = None,
       us_carrierName = None, us_adminNotes = None \<rparr>"

definition ex_cancelled :: state where
  "ex_cancelled = snd (updateStatus ex_shop ex_orderId (ex_toStatus CANCELLED) ex_admin ''admin'' ex_later)"

definition ex_evening :: date where "ex_evening = ''2025-06-02T19:45:00.000Z''"



text \<open>A gateway that accepts every initialization and reports every transaction as paid,
  and stand-ins for the digest, the parser and the serializer of the webhook body (the
  statements hold for every choice of these functions).\<close>

definition ex_gwInit :: "init_request \<Rightarrow> string + init_response" where
  "ex_gwInit request =
     Inr \<lparr> in_status = True,
           in_data = \<lparr> authorization_url = ''https://checkout.paystack.com/'' @ ir_reference request,
                       access_code = ''ac_'' @ ir_reference request,
                       init_reference = ir_reference request \<rparr> \<rparr>"

definition ex_paidData :: "string \<Rightarrow> paystack_data" where
  "ex_paidData reference =
     \<lparr> d_id = 4099260516, d_status = ''success'', d_reference = reference, d_message = None,
       d_gateway_response = ''Successful'', d_paid_at = ''2025-06-02T19:44:10.000Z'',
       d_channel = ''card'', d_fees = 97197, d_ip_address = ''197.210.0.1'',
       d_authorization = [(''authorization_code'', ''AUTH_x1y2z3''), (''last4'', ''4081'')],
       d_customer =
         \<lparr> c_id = 181873746, c_first_name = Some ''Chi'', c_last_name = Some ''Eze'',
           c_email = ''chi@example.com'', c_customer_code = ''CUS_1rkzaqsv4rrhqo6'',
           c_phone = None, c_risk_action = ''default'' \<rparr> \<rparr>"

definition ex_gwVerify :: "string \<Rightarrow> string + verify_response" where
  "ex_gwVerify reference = Inr \<lparr> vr_status = True, vr_data = ex_paidData reference \<rparr>"

definition ex_hmac :: "string \<Rightarrow> string \<Rightarrow> string" where
  "ex_hmac key text = ''hmac:'' @ key @ '':'' @ text"

definition ex_stringify :: "webhook \<Rightarrow> string" where
  "ex_stringify w = wh_event w @ ''/'' @ d_reference (wh_data w) @ ''/'' @ d_status (wh_data w)"

definition ex_secret :: string where "ex_secret = ''sk_test_0123456789''"

definition ex_ref1 :: string where "ex_ref1 = ''PAY_1748772300000_424242''"
definition ex_ref2 :: string where "ex_ref2 = ''PAY_1748853000000_171717''"
definition ex_payId1 :: oid where "ex_payId1 = ''eeeeeeeeeeeeeeeeeeeeeee1''"
definition ex_payId2 :: oid where "ex_payId2 = ''eeeeeeeeeeeeeeeeeeeeeee2''"

definition ex_webhook :: webhook where
  "ex_webhook = \<lparr> wh_event = ''charge.success'', wh_data = ex_paidData ex_ref2 \<rparr>"

definition ex_parse :: "string \<Rightarrow> webhook option" where
  "ex_parse body = (if body = ex_stringify ex_webhook then Some ex_webhook else None)"

text \<open>A parser that accepts the payload also with a trailing space.\<close>

definition ex_parseLenient :: "string \<Rightarrow> webhook option" where
  "ex_parseLenient body =
     (if body = ex_stringify ex_webhook \<or> body = ex_stringify ex_webhook @ '' ''
      then Some ex_webhook else None)"

definition ex_initDto :: initialize_dto where
  "ex_initDto = \<lparr> ip_orderId = ex_orderId, ip_gateway = None, ip_callbackUrl = None \<rparr>"

text \<open>The buyer starts a payment five minutes after the order, and starts another one the
  next morning: the first payment is marked failed as expired, the second is pending.
  In the evening the first reference is verified.\<close>

definition ex_paying1 :: state where
  "ex_paying1 =
     snd (initializePayment ex_gwInit ex_shop ex_initDto ex_buyer (Some ''https://shop.example'')
            ex_ref1 ex_payId1 ''2025-06-01T10:05:00.000Z'' ''2025-06-01T09:35:00.000Z'')"

definition ex_paying2 :: state where
  "ex_paying2 =
     snd (initializePayment ex_gwInit ex_paying1 ex_initDto ex_buyer (Some ''https://shop.example'')
            ex_ref2 ex_payId2 ex_later ''2025-06-02T08:00:00.000Z'')"

definition ex_paid :: state where
  "ex_paid = snd (verifyPayment ex_gwVerify ex_paying2 ex_ref1 ex_evening)"

section \<open>Properties\<close>

subsection \<open>Rounding to binary64\<close>

lemma bitlen_pos: "0 < n \<Longrightarrow> 1 \<le> bitlen n"
  using bitlen_eq_zero_iff [of n] bitlen_nonneg [of n] by linarith

lemma exponentOf_bounds:
  assumes "0 < x"
  shows "2 powi exponentOf x \<le> x" and "x < 2 powi (exponentOf x + 1)"
proof -
  have "2 powi exponentOf x \<le> x \<and> x < 2 powi (exponentOf x + 1)"
  proof (cases "1 \<le> x")
    case True
    then have p: "0 < \<lfloor>x\<rfloor>" by simp
    note b = bitlen_bounds [OF p]
    from bitlen_pos [OF p] have nn: "0 \<le> bitlen \<lfloor>x\<rfloor> - 1" by simp
    have e: "exponentOf x = bitlen \<lfloor>x\<rfloor> - 1"
      using True by (simp add: exponentOf_def)
    have "2 powi exponentOf x = (of_int (2 ^ nat (bitlen \<lfloor>x\<rfloor> - 1)) :: rat)"
      using nn by (simp add: e power_int_def)
    also have "\<dots> \<le> of_int \<lfloor>x\<rfloor>"
      using b by (simp only: of_int_le_iff)
    also have "\<dots> \<le> x" by simp
    finally have lo: "2 powi exponentOf x \<le> x" .
    have "x < of_int (\<lfloor>x\<rfloor> + 1)" by linarith
    also have "\<dots> \<le> (of_int (2 ^ nat (bitlen \<lfloor>x\<rfloor>)) :: rat)"
      using b by (simp only: of_int_le_iff) simp
    also have "\<dots> = 2 powi (exponentOf x + 1)"
      using nn by (simp add: e power_int_def)
    finally show ?thesis using lo by simp
  next
    case False
    with assms have x1: "x < 1" and inv1: "1 < 1 / x" by simp_all
    let ?N = "\<lceil>1 / x\<rceil>"
    from inv1 have "1 < ?N" by linarith
    then have p: "0 < ?N - 1" by simp
    note b = bitlen_bounds [OF p]
    from bitlen_pos [OF p] have j1: "1 \<le> bitlen (?N - 1)" .
    have e: "exponentOf x = - bitlen (?N - 1)"
      using False by (simp add: exponentOf_def)
    have "1 / x \<le> of_int ?N" by linarith
    also have "\<dots> \<le> (of_int (2 ^ nat (bitlen (?N - 1))) :: rat)"
      using b by (simp only: of_int_le_iff) simp
    finally have up: "1 / x \<le> 2 ^ nat (bitlen (?N - 1))" by simp
    have "(of_int (2 ^ nat (bitlen (?N - 1) - 1)) :: rat) \<le> of_int (?N - 1)"
      using b by (simp only: of_int_le_iff)
    also have "\<dots> < 1 / x" by linarith
    finally have dn: "2 ^ nat (bitlen (?N - 1) - 1) < 1 / x" by simp
    have lo: "2 powi exponentOf x \<le> x"
    proof -
      have "2 powi exponentOf x = 1 / (2::rat) ^ nat (bitlen (?N - 1))"
        using j1 by (simp add: e power_int_def field_simps)
      also have "\<dots> \<le> x"
        using up assms by (simp add: field_simps)
      finally show ?thesis .
    qed
    have hi: "x < 2 powi (exponentOf x + 1)"
    proof -
      have "x < 1 / (2::rat) ^ nat (bitlen (?N - 1) - 1)"
        using dn assms by (simp add: field_simps)
      also have "\<dots> = 2 powi (exponentOf x + 1)"
        using j1 by (auto simp add: e power_int_def field_simps)
      finally show ?thesis .
    qed
    from lo hi show ?thesis by simp
  qed
  then show "2 powi exponentOf x \<le> x" and "x < 2 powi (exponentOf x + 1)" by simp_all
qed

lemma roundTiesToEven_bounds:
  "\<lfloor>y\<rfloor> \<le> roundTiesToEven y" "roundTiesToEven y \<le> \<lceil>y\<rceil>"
  "\<bar>of_int (roundTiesToEven y) - y\<bar> \<le> 1 / 2"
proof -
  show "\<lfloor>y\<rfloor> \<le> roundTiesToEven y"
    by (simp add: roundTiesToEven_def Let_def)
  show "roundTiesToEven y \<le> \<lceil>y\<rceil>"
    unfolding roundTiesToEven_def Let_def
    by (auto simp: not_less ceiling_altdef)
  have "\<bar>of_int (if y - of_int f < 1 / 2 then f else if 1 / 2 < y - of_int f then f + 1
                     else if even f then f else f + 1) - y\<bar> \<le> 1 / 2"
    if "of_int f \<le> y" "y < of_int f + 1" for f :: int
    using that by (simp add: abs_if not_less)
  from this [of "\<lfloor>y\<rfloor>"] show "\<bar>of_int (roundTiesToEven y) - y\<bar> \<le> 1 / 2"
    unfolding roundTiesToEven_def Let_def by linarith
qed

lemma roundTiesToEven_of_int: "roundTiesToEven (of_int n) = n"
  by (simp add: roundTiesToEven_def)

lemma ulp_pos: "0 < ulp x"
  by (simp add: ulp_def)

lemma toNumber_ulp: "x \<noteq> 0 \<Longrightarrow> toNumber x = of_int (roundTiesToEven (x / ulp x)) * ulp x"
  by (simp add: toNumber_def ulp_def Let_def)

lemma toNumber_le_grid:
  assumes "x \<noteq> 0" and "x \<le> of_int n * ulp x"
  shows "toNumber x \<le> of_int n * ulp x"
proof -
  from assms(2) ulp_pos [of x] have "x / ulp x \<le> of_int n"
    by (simp add: field_simps)
  then have "\<lceil>x / ulp x\<rceil> \<le> n" by (simp add: ceiling_le_iff)
  with roundTiesToEven_bounds(2) [of "x / ulp x"] have "roundTiesToEven (x / ulp x) \<le> n"
    by linarith
  then have "(of_int (roundTiesToEven (x / ulp x)) :: rat) \<le> of_int n"
    by (simp only: of_int_le_iff)
  with ulp_pos [of x] show ?thesis
    by (simp add: toNumber_ulp [OF assms(1)])
qed

lemma toNumber_ge_grid:
  assumes "x \<noteq> 0" and "of_int n * ulp x \<le> x"
  shows "of_int n * ulp x \<le> toNumber x"
proof -
  from assms(2) ulp_pos [of x] have "of_int n \<le> x / ulp x"
    by (simp add: field_simps)
  then have "n \<le> \<lfloor>x / ulp x\<rfloor>" by (simp add: le_floor_iff)
  with roundTiesToEven_bounds(1) [of "x / ulp x"] have "n \<le> roundTiesToEven (x / ulp x)"
    by linarith
  then have "(of_int n :: rat) \<le> of_int (roundTiesToEven (x / ulp x))"
    by (simp only: of_int_le_iff)
  with ulp_pos [of x] show ?thesis
    by (simp add: toNumber_ulp [OF assms(1)])
qed

lemma toNumber_nearest:
  assumes "x \<noteq> 0"
  shows "\<bar>toNumber x - x\<bar> \<le> ulp x / 2"
proof -
  have "toNumber x - x = (of_int (roundTiesToEven (x / ulp x)) - x / ulp x) * ulp x"
    using ulp_pos [of x]
    by (simp add: toNumber_ulp [OF assms] left_diff_distrib)
  then have "\<bar>toNumber x - x\<bar> = \<bar>of_int (roundTiesToEven (x / ulp x)) - x / ulp x\<bar> * ulp x"
    using ulp_pos [of x] by (simp add: abs_mult)
  also have "\<dots> \<le> 1 / 2 * ulp x"
    using roundTiesToEven_bounds(3) [of "x / ulp x"] ulp_pos [of x]
    by (intro mult_right_mono) simp_all
  finally show ?thesis by simp
qed

lemma exponentOf_less:
  assumes "0 < x" and "x < 2 ^ n"
  shows "exponentOf x < int n"
proof -
  have "2 powi exponentOf x < (2::rat) powi int n"
    using exponentOf_bounds(1) [OF assms(1)] assms(2) by simp
  then show ?thesis
    by (rule power_int_le_imp_less_exp [rotated]) simp_all
qed

lemma ulp_fine:
  assumes "0 < x" and "x < 2 ^ 43"
  shows "\<exists>i :: nat. 10 \<le> i \<and> ulp x = 1 / 2 ^ i"
proof -
  define j where "j = max (exponentOf \<bar>x\<bar>) (- 1022) - 52"
  from exponentOf_less [of x 43] assms have "j \<le> - 10"
    by (simp add: j_def)
  have "ulp x = 2 powi j"
    by (simp only: ulp_def j_def)
  also have "\<dots> = inverse (2 powi (- j))"
    using power_int_minus [of "2::rat" "- j"] by simp
  also have "2 powi (- j) = (2::rat) ^ nat (- j)"
    using \<open>j \<le> - 10\<close> by (simp add: power_int_def)
  finally have "ulp x = 1 / 2 ^ nat (- j)"
    by (simp only: inverse_eq_divide)
  moreover from \<open>j \<le> - 10\<close> have "10 \<le> nat (- j)" by simp
  ultimately show ?thesis by blast
qed

lemma ulp_lower:
  assumes "0 < x"
  shows "x < ulp x * 2 ^ 53"
proof -
  have "x < 2 powi (exponentOf x + 1)"
    by (rule exponentOf_bounds(2) [OF assms])
  also have "exponentOf x + 1 = exponentOf x - 52 + 53"
    by simp
  also have "2 powi (exponentOf x - 52 + 53) = (2::rat) powi (exponentOf x - 52) * 2 powi 53"
    by (rule power_int_add) simp
  also have "\<dots> \<le> ulp x * 2 powi 53"
    using assms unfolding ulp_def
    by (intro mult_right_mono power_int_increasing) simp_all
  finally show ?thesis by simp
qed

lemma grid_1024:
  assumes "10 \<le> i" and "u = 1 / (2::rat) ^ i"
  shows "of_int m / 1024 = of_int (m * 2 ^ (i - 10)) * u"
proof -
  from assms(1) have "(2::rat) ^ i = 2 ^ 10 * 2 ^ (i - 10)"
    using power_add [of "2::rat" 10 "i - 10"] by simp
  then show ?thesis by (simp add: assms(2))
qed

lemma Math_round_times:
  fixes a n :: int and c :: rat
  assumes a: "0 \<le> a" "a \<le> 2 * 10 ^ 12"
    and c: "0 < c" "c < 1"
    and err: "\<bar>c - of_int n / 1000\<bar> \<le> 1 / 10 ^ 17"
    and tie: "of_int n / 1000 \<le> c \<or> (of_int n / 1000 - c) * 2 ^ 54 < c"
  shows "Math_round (toNumber (of_int a * c)) = (n * a + 500) div 1000"
proof (cases "a = 0")
  case True
  have "\<lfloor>1 / 2 :: rat\<rfloor> = 0"
    by (rule floor_unique) simp_all
  with True show ?thesis by (simp add: toNumber_def Math_round_def)
next
  case False
  with a have apos: "0 < a" by simp
  define x where "x = of_int a * c"
  define u where "u = ulp x"
  define k where "k = (n * a + 500) div 1000"
  define r where "r = (n * a + 500) mod 1000"
  define A :: rat where "A = of_int a"
  from a(2) have "(of_int a :: rat) \<le> of_int (2 * 10 ^ 12)"
    by (simp only: of_int_le_iff)
  with apos have A: "0 < A" "A \<le> 2 * 10 ^ 12"
    by (simp_all add: A_def)
  have xA: "x = A * c" by (simp add: x_def A_def)
  have xpos: "0 < x" using A c by (simp add: xA)
  then have x0: "x \<noteq> 0" by simp
  have "x < A" using A c by (simp add: xA)
  with A have "x < 2 ^ 43" by simp
  from ulp_fine [OF xpos this] obtain i :: nat where i: "10 \<le> i" "u = 1 / 2 ^ i"
    unfolding u_def by blast
  have upos: "0 < u" by (simp add: u_def ulp_pos)
  have r: "0 \<le> r" "r < 1000" by (simp_all add: r_def)
  have "n * a + 500 = 1000 * k + r"
    by (simp add: k_def r_def)
  then have "(of_int (n * a + 500) :: rat) = of_int (1000 * k + r)"
    by (simp only:)
  then have t: "of_int n / 1000 * A = of_int k - 1 / 2 + of_int r / 1000"
    by (simp add: A_def field_simps)
  have "x - of_int n / 1000 * A = A * (c - of_int n / 1000)"
    by (simp add: xA algebra_simps)
  then have "\<bar>x - of_int n / 1000 * A\<bar> = A * \<bar>c - of_int n / 1000\<bar>"
    using A by (simp add: abs_mult)
  also have "\<dots> \<le> (2 * 10 ^ 12) * (1 / 10 ^ 17)"
    using A err by (intro mult_mono) simp_all
  finally have "\<bar>x - of_int n / 1000 * A\<bar> \<le> (2 * 10 ^ 12) * (1 / 10 ^ 17)" .
  then have "\<bar>x - (of_int k - 1 / 2 + of_int r / 1000)\<bar> \<le> 1 / 50000"
    unfolding t by simp
  then have d: "x \<le> of_int k - 1 / 2 + of_int r / 1000 + 1 / 50000"
    "of_int k - 1 / 2 + of_int r / 1000 - 1 / 50000 \<le> x"
    by linarith+
  have R: "(of_int r :: rat) \<le> 999" "(0::rat) \<le> of_int r"
    using r by simp_all
  have "(of_int (1024 * k + 511) :: rat) / 1024 = of_int k + 511 / 1024"
    by simp
  with d R have xup: "x \<le> of_int (1024 * k + 511) / 1024"
    by linarith
  note gup = grid_1024 [OF i, of "1024 * k + 511", unfolded u_def]
  from toNumber_le_grid [OF x0 xup [unfolded gup]]
  have "toNumber x \<le> of_int (1024 * k + 511) / 1024"
    by (simp only: gup)
  then have up: "toNumber x + 1 / 2 < of_int (k + 1)"
    by simp
  have "of_int k - 1 / 2 = (of_int (1024 * k - 512) :: rat) / 1024"
    by simp
  also note grid_1024 [OF i, of "1024 * k - 512", unfolded u_def]
  finally have glo: "of_int k - 1 / 2 = of_int ((1024 * k - 512) * 2 ^ (i - 10)) * ulp x" .
  have lo: "of_int k - 1 / 2 \<le> toNumber x"
  proof (cases "of_int k - 1 / 2 \<le> x")
    case True
    then have "of_int ((1024 * k - 512) * 2 ^ (i - 10)) * ulp x \<le> x"
      by (simp only: glo)
    from toNumber_ge_grid [OF x0 this] show ?thesis
      by (simp only: glo)
  next
    case below: False
    have r0: "r = 0"
    proof (rule ccontr)
      assume "r \<noteq> 0"
      with r have "1 \<le> r" by simp
      then have "(1::rat) \<le> of_int r" by (simp only: of_int_1_le_iff)
      with d below show False by linarith
    qed
    from below t r0 have "A * c < A * (of_int n / 1000)"
      by (simp add: xA not_le mult.commute)
    with A(1) have "c < of_int n / 1000"
      by (simp only: mult_less_cancel_left_pos)
    with tie have tie': "(of_int n / 1000 - c) * 2 ^ 54 < c" by simp
    define eta where "eta = A * (of_int n / 1000 - c)"
    have xe: "x = of_int k - 1 / 2 - eta"
      using t r0 by (simp add: eta_def xA algebra_simps)
    have e54: "eta * 2 ^ 54 < x"
    proof -
      have "eta * 2 ^ 54 = A * ((of_int n / 1000 - c) * 2 ^ 54)"
        by (simp add: eta_def)
      also have "\<dots> < A * c"
        using tie' A by (intro mult_strict_left_mono) simp_all
      finally show ?thesis by (simp add: xA)
    qed
    define N where "N = (1024 * k - 512) * 2 ^ (i - 10)"
    define m where "m = roundTiesToEven (x / ulp x)"
    have tm: "toNumber x = of_int m * u"
      by (simp add: toNumber_ulp [OF x0] m_def u_def)
    have gN: "of_int k - 1 / 2 = of_int N * u"
      using glo by (simp add: N_def u_def)
    show ?thesis
    proof (rule ccontr)
      assume "\<not> of_int k - 1 / 2 \<le> toNumber x"
      then have "of_int m * u < of_int N * u"
        by (simp add: tm gN)
      with upos have "m < N" by simp
      then have "m + 1 \<le> N" by simp
      then have "(of_int (m + 1) :: rat) \<le> of_int N"
        by (simp only: of_int_le_iff)
      with upos have "of_int (m + 1) * u \<le> of_int N * u"
        by (simp only: mult_le_cancel_right_pos)
      then have "toNumber x + u \<le> of_int k - 1 / 2"
        by (simp add: tm gN algebra_simps)
      moreover from toNumber_nearest [OF x0] have "x - toNumber x \<le> u / 2"
        unfolding u_def by linarith
      ultimately have "u \<le> 2 * eta"
        unfolding xe by linarith
      then have "u * 2 ^ 53 \<le> eta * 2 ^ 54"
        by simp
      with ulp_lower [OF xpos] e54 show False
        by (simp add: u_def)
    qed
  qed
  from lo have "of_int k \<le> toNumber x + 1 / 2" by simp
  with up have "\<lfloor>toNumber x + 1 / 2\<rfloor> = k"
    by (simp add: floor_unique)
  then show ?thesis
    by (simp add: Math_round_def x_def k_def)
qed

text \<open>A whole number below \<open>2^53\<close> in magnitude is a binary64 value, and the rounded value of
  any whole number is a whole number.\<close>

lemma exponentOf_ge:
  assumes "2 ^ n \<le> x"
  shows "int n \<le> exponentOf x"
proof -
  from assms have xpos: "0 < x"
    by (rule less_le_trans [rotated]) simp
  have "(2::rat) powi int n < 2 powi (exponentOf x + 1)"
    using exponentOf_bounds(2) [OF xpos] assms by simp
  have "int n < exponentOf x + 1"
  proof (rule ccontr)
    assume "\<not> int n < exponentOf x + 1"
    then have "exponentOf x + 1 \<le> int n" by simp
    then have "(2::rat) powi (exponentOf x + 1) \<le> 2 powi int n"
      by (rule power_int_increasing) simp
    with \<open>(2::rat) powi int n < 2 powi (exponentOf x + 1)\<close> show False by simp
  qed
  then show ?thesis by simp
qed

lemma powi_nonpos: "j \<le> 0 \<Longrightarrow> (2::rat) powi j = 1 / 2 ^ nat (- j)"
proof -
  assume j: "j \<le> 0"
  have "(2::rat) powi j = inverse (2 powi (- j))"
    using power_int_minus [of "2::rat" "- j"] by simp
  also have "2 powi (- j) = (2::rat) ^ nat (- j)"
    using j by (simp add: power_int_def)
  finally show ?thesis
    by (simp only: inverse_eq_divide)
qed

lemma toNumber_of_int:
  assumes "\<bar>n\<bar> < 2 ^ 53"
  shows "toNumber (of_int n) = of_int n"
proof (cases "n = 0")
  case True
  then show ?thesis by (simp add: toNumber_def)
next
  case False
  define x :: rat where "x = of_int n"
  have x0: "x \<noteq> 0" using False by (simp add: x_def)
  have ax: "\<bar>x\<bar> = of_int \<bar>n\<bar>" by (simp add: x_def)
  from False have "1 \<le> \<bar>n\<bar>" by simp
  then have "(of_int 1 :: rat) \<le> of_int \<bar>n\<bar>" by (simp only: of_int_le_iff)
  then have lo: "2 ^ 0 \<le> \<bar>x\<bar>" by (simp add: ax)
  from assms have "(of_int \<bar>n\<bar> :: rat) < of_int (2 ^ 53)" by (simp only: of_int_less_iff)
  then have hi: "\<bar>x\<bar> < 2 ^ 53" by (simp add: ax)
  from lo have xpos: "0 < \<bar>x\<bar>" by simp
  define j where "j = max (exponentOf \<bar>x\<bar>) (- 1022) - 52"
  from exponentOf_less [OF xpos hi] exponentOf_ge [OF lo]
  have j: "j \<le> 0" by (simp_all add: j_def)
  have u: "ulp x = 1 / 2 ^ nat (- j)"
    unfolding ulp_def j_def [symmetric] by (rule powi_nonpos [OF j])
  have "x / ulp x = of_int (n * 2 ^ nat (- j))"
    unfolding u by (simp add: x_def)
  then have "roundTiesToEven (x / ulp x) = n * 2 ^ nat (- j)"
    by (simp only: roundTiesToEven_of_int)
  then have "toNumber x = of_int n"
    by (simp add: toNumber_ulp [OF x0] u)
  then show ?thesis by (simp only: x_def)
qed

lemma toNumber_of_int_integral: "\<exists>m. toNumber (of_int n) = of_int m"
proof (cases "\<bar>n\<bar> < 2 ^ 53")
  case True
  from toNumber_of_int [OF this] show ?thesis by blast
next
  case False
  define x :: rat where "x = of_int n"
  have ax: "\<bar>x\<bar> = of_int \<bar>n\<bar>" by (simp add: x_def)
  from False have "2 ^ 53 \<le> \<bar>n\<bar>" by simp
  then have "(of_int (2 ^ 53) :: rat) \<le> of_int \<bar>n\<bar>" by (simp only: of_int_le_iff)
  then have lo: "2 ^ 53 \<le> \<bar>x\<bar>" by (simp add: ax)
  then have x0: "x \<noteq> 0" by auto
  define j where "j = max (exponentOf \<bar>x\<bar>) (- 1022) - 52"
  from exponentOf_ge [OF lo] have j: "0 \<le> j" by (simp add: j_def)
  have "ulp x = 2 ^ nat j"
    unfolding ulp_def j_def [symmetric] using j by (simp add: power_int_def)
  then have "toNumber x = of_int (roundTiesToEven (x / ulp x) * 2 ^ nat j)"
    by (simp add: toNumber_ulp [OF x0])
  then show ?thesis unfolding x_def by blast
qed

subsection \<open>Pricing calculator\<close>

lemma Number_times_exact: "\<bar>a * b\<bar> < 2 ^ 53 \<Longrightarrow> Number_times a b = a * b"
  by (simp only: Number_times_def of_int_mult [symmetric] toNumber_of_int floor_of_int)

lemma Number_plus_exact: "\<bar>a + b\<bar> < 2 ^ 53 \<Longrightarrow> Number_plus a b = a + b"
  by (simp only: Number_plus_def of_int_add [symmetric] toNumber_of_int floor_of_int)

text \<open>The two literals, and the fee and the tax of an amount up to \<open>2 * 10^12\<close>: the
  rounding of the literal and of the product does not move the result of
  \<^verbatim>\<open>Math.round\<close>.\<close>

lemma toNumber_0_035: "toNumber 0.035 = 1261007895663739 / 2 ^ 55"
  by code_simp

lemma toNumber_0_075: "toNumber 0.075 = 5404319552844595 / 2 ^ 56"
  by code_simp

lemma calculateServiceFee_div:
  assumes "0 \<le> a" and "a \<le> 2 * 10 ^ 12"
  shows "calculateServiceFee a = (35 * a + 500) div 1000"
  unfolding calculateServiceFee_def toNumber_0_035
  by (rule Math_round_times [OF assms]) simp_all

lemma calculateTaxes_div:
  assumes "0 \<le> a" and "a \<le> 2 * 10 ^ 12"
  shows "calculateTaxes a = (75 * a + 500) div 1000"
  unfolding calculateTaxes_def toNumber_0_075
  by (rule Math_round_times [OF assms]) simp_all

text \<open>Within these ranges the evaluation of the pricing needs no rounding: the equations
  below are the ones the evaluations of the scenarios use.\<close>

lemma Number_times_code [code]:
  "Number_times a b =
     (if \<bar>a * b\<bar> < 9007199254740992 then a * b else \<lfloor>toNumber (of_int a * of_int b)\<rfloor>)"
  using Number_times_exact [of a b] by (simp add: Number_times_def)

lemma Number_plus_code [code]:
  "Number_plus a b =
     (if \<bar>a + b\<bar> < 9007199254740992 then a + b else \<lfloor>toNumber (of_int a + of_int b)\<rfloor>)"
  using Number_plus_exact [of a b] by (simp add: Number_plus_def)

lemma calculateServiceFee_code [code]:
  "calculateServiceFee amount =
     (if 0 \<le> amount \<and> amount \<le> 2000000000000 then (35 * amount + 500) div 1000
      else Math_round (toNumber (of_int amount * toNumber 0.035)))"
  using calculateServiceFee_div [of amount] by (simp add: calculateServiceFee_def)

lemma calculateTaxes_code [code]:
  "calculateTaxes amount =
     (if 0 \<le> amount \<and> amount \<le> 2000000000000 then (75 * amount + 500) div 1000
      else Math_round (toNumber (of_int amount * toNumber 0.075)))"
  using calculateTaxes_div [of amount] by (simp add: calculateTaxes_def)

lemma nairaToKobo_code [code]:
  "nairaToKobo nairaAmount =
     (if \<bar>nairaAmount * 100\<bar> < 9007199254740992 then nairaAmount * 100
      else Math_round (toNumber (of_int nairaAmount * 100)))"
proof -
  have "Math_round (toNumber (of_int nairaAmount * 100)) = nairaAmount * 100"
    if "\<bar>nairaAmount * 100\<bar> < 2 ^ 53"
  proof -
    have "toNumber (of_int nairaAmount * 100) = toNumber (of_int (nairaAmount * 100))"
      by simp
    also have "\<dots> = of_int (nairaAmount * 100)"
      by (rule toNumber_of_int [OF that])
    finally show ?thesis
      unfolding Math_round_def by (simp only: floor_add_int [symmetric] floor_unique)
  qed
  then show ?thesis by (simp add: nairaToKobo_def)
qed


lemma round_times_div:
  "round (real_of_int a * (real_of_int n / 1000)) = (n * a + 500) div 1000"
proof -
  have "real_of_int a * (real_of_int n / 1000) + 1 / 2 = real_of_int (n * a + 500) / real_of_int 1000"
    by (simp add: field_simps)
  then show ?thesis
    unfolding round_def by (simp only: floor_divide_of_int_eq)
qed

lemma spec_pricing_div:
  "spec_pricing unitPrice qty domesticShipping =
     \<lparr> totalPrice = int (unitPrice * qty),
       shippingCost = int (domesticShipping * qty),
       itemServiceFee = (35 * int (unitPrice * qty) + 500) div 1000,
       itemTaxes =
         (75 * (int (unitPrice * qty) + (35 * int (unitPrice * qty) + 500) div 1000) + 500) div 1000,
       itemTotal =
         int (unitPrice * qty) + int (domesticShipping * qty)
           + (35 * int (unitPrice * qty) + 500) div 1000
           + (75 * (int (unitPrice * qty) + (35 * int (unitPrice * qty) + 500) div 1000) + 500)
               div 1000 \<rparr>"
proof -
  have f: "round (real (unitPrice * qty) * 0.035) = (35 * int (unitPrice * qty) + 500) div 1000"
    using round_times_div [of "int (unitPrice * qty)" 35] by simp
  have t: "round ((real (unitPrice * qty) + real_of_int k) * 0.075)
             = (75 * (int (unitPrice * qty) + k) + 500) div 1000" for k
    using round_times_div [of "int (unitPrice * qty) + k" 75] by simp
  show ?thesis
    unfolding spec_pricing_def f t ..
qed


text \<open>
  Claim C2 (as amended). For natural unit price, quantity and per-unit domestic shipping
  whose products unit price times quantity and shipping times quantity are at most
  \<open>10^12\<close>, the per-item breakdown computed in the loop of \<^verbatim>\<open>calculateOrder\<close> is the
  breakdown of section 4.1: the price is unit price times quantity, the shipping is
  per-unit shipping times quantity, the fee is the price times 0.035 rounded, the tax is
  price plus fee times 0.075 rounded, each rounding taken on its own (they are the integer
  quotients \<open>(35 a + 500) div 1000\<close> and \<open>(75 a + 500) div 1000\<close>), and the total is the
  sum of the other four fields.
\<close>

theorem itemPricing_breakdown:
  assumes "unitPrice * qty \<le> 10 ^ 12" and "domesticShipping * qty \<le> 10 ^ 12"
  shows "itemPricing (int unitPrice) (int qty) (Some (int domesticShipping))
     = spec_pricing unitPrice qty domesticShipping
   \<and> itemTotal (itemPricing (int unitPrice) (int qty) (Some (int domesticShipping)))
     = totalPrice (itemPricing (int unitPrice) (int qty) (Some (int domesticShipping)))
       + shippingCost (itemPricing (int unitPrice) (int qty) (Some (int domesticShipping)))
       + itemServiceFee (itemPricing (int unitPrice) (int qty) (Some (int domesticShipping)))
       + itemTaxes (itemPricing (int unitPrice) (int qty) (Some (int domesticShipping)))
   \<and> itemServiceFee (itemPricing (int unitPrice) (int qty) (Some (int domesticShipping)))
     = (35 * int (unitPrice * qty) + 500) div 1000
   \<and> itemTaxes (itemPricing (int unitPrice) (int qty) (Some (int domesticShipping)))
     = (75 * (int (unitPrice * qty)
              + itemServiceFee (itemPricing (int unitPrice) (int qty) (Some (int domesticShipping))))
         + 500) div 1000"
proof -
  define tp where "tp = int (unitPrice * qty)"
  define sc where "sc = int (domesticShipping * qty)"
  define fee where "fee = (35 * tp + 500) div 1000"
  define tax where "tax = (75 * (tp + fee) + 500) div 1000"
  from assms have "int (unitPrice * qty) \<le> int (10 ^ 12)" "int (domesticShipping * qty) \<le> int (10 ^ 12)"
    by (simp_all only: of_nat_le_iff)
  then have b: "0 \<le> tp" "tp \<le> 10 ^ 12" "0 \<le> sc" "sc \<le> 10 ^ 12"
    by (simp_all add: tp_def sc_def)
  then have fb: "0 \<le> fee" "fee \<le> 4 * 10 ^ 10"
    by (simp_all add: fee_def)
  with b have tb: "0 \<le> tax" "tax \<le> 10 ^ 11"
    by (simp_all add: tax_def)
  have m1: "Number_times (int unitPrice) (int qty) = tp"
    using b by (subst Number_times_exact) (simp_all add: tp_def)
  have m2: "Number_times (int domesticShipping) (int qty) = sc"
    using b by (subst Number_times_exact) (simp_all add: sc_def)
  have f: "calculateServiceFee tp = fee"
    unfolding fee_def using b by (intro calculateServiceFee_div) simp_all
  have p1: "Number_plus tp fee = tp + fee"
    using b fb by (intro Number_plus_exact) simp
  have t: "calculateTaxes (tp + fee) = tax"
    unfolding tax_def using b fb by (intro calculateTaxes_div) simp_all
  have p2: "Number_plus tp sc = tp + sc"
    using b by (intro Number_plus_exact) simp
  have p3: "Number_plus (tp + sc) fee = tp + sc + fee"
    using b fb by (intro Number_plus_exact) simp
  have p4: "Number_plus (tp + sc + fee) tax = tp + sc + fee + tax"
    using b fb tb by (intro Number_plus_exact) simp
  have code: "itemPricing (int unitPrice) (int qty) (Some (int domesticShipping))
     = \<lparr> totalPrice = tp, shippingCost = sc, itemServiceFee = fee, itemTaxes = tax,
         itemTotal = tp + sc + fee + tax \<rparr>"
    by (simp add: itemPricing_def orZero_def Let_def m1 m2 f p1 t p2 p3 p4)
  have spec: "spec_pricing unitPrice qty domesticShipping
     = \<lparr> totalPrice = tp, shippingCost = sc, itemServiceFee = fee, itemTaxes = tax,
         itemTotal = tp + sc + fee + tax \<rparr>"
    unfolding spec_pricing_div tp_def sc_def fee_def tax_def ..
  show ?thesis
    unfolding code spec by (simp add: tp_def fee_def tax_def)
qed


text \<open>The line of the end-to-end scenario of the specification: 25000 a unit, two units,
  1250 shipping a unit.\<close>

theorem itemPricing_breakdown_witness:
  "(25000::nat) * 2 \<le> 10 ^ 12 \<and> (1250::nat) * 2 \<le> 10 ^ 12
   \<and> itemPricing 25000 2 (Some 1250)
       = \<lparr> totalPrice = 50000, shippingCost = 2500, itemServiceFee = 1750, itemTaxes = 3881,
           itemTotal = 58131 \<rparr>"
  using itemPricing_breakdown [of 25000 2 1250]
  by (simp add: spec_pricing_div)


text \<open>
  Claim C2 as stated, for every natural, fails where binary64 rounds: at the price
  973384353523357 the product with the literal 0.035 is rounded up across the half and
  the fee is one more than the rounded exact product; \<open>9007199254740991 * 3\<close> is not a
  binary64 value and the price is one less than the product; and at the price
  9007199254740991 the total is one more than the sum of the other four fields.
\<close>

theorem itemPricing_rounding_counterexample:
  "itemServiceFee (itemPricing 973384353523357 1 (Some 0)) = 34068452373318
   \<and> itemServiceFee (spec_pricing 973384353523357 1 0) = 34068452373317
   \<and> totalPrice (itemPricing 9007199254740991 3 (Some 0)) = 27021597764222972
   \<and> totalPrice (spec_pricing 9007199254740991 3 0) = 27021597764222973
   \<and> itemPricing 9007199254740991 1 (Some 0)
       = \<lparr> totalPrice = 9007199254740991, shippingCost = 0, itemServiceFee = 315251973915935,
           itemTaxes = 699183842149269, itemTotal = 10021635070806196 \<rparr>
   \<and> 9007199254740991 + 0 + 315251973915935 + 699183842149269 = (10021635070806195 :: int)"
proof -
  have "itemServiceFee (itemPricing 973384353523357 1 (Some 0)) = 34068452373318"
    by code_simp
  moreover have "itemServiceFee (spec_pricing 973384353523357 1 0) = 34068452373317"
    by (simp add: spec_pricing_div)
  moreover have "totalPrice (itemPricing 9007199254740991 3 (Some 0)) = 27021597764222972"
    by code_simp
  moreover have "totalPrice (spec_pricing 9007199254740991 3 0) = 27021597764222973"
    by (simp add: spec_pricing_div)
  moreover have "itemPricing 9007199254740991 1 (Some 0)
       = \<lparr> totalPrice = 9007199254740991, shippingCost = 0, itemServiceFee = 315251973915935,
           itemTaxes = 699183842149269, itemTotal = 10021635070806196 \<rparr>"
    by code_simp
  moreover have "9007199254740991 + 0 + 315251973915935 + 699183842149269 = (10021635070806195 :: int)"
    by simp
  ultimately show ?thesis by blast
qed

subsection \<open>Order calculation\<close>












subsection \<open>Status transitions\<close>

lemma updateStatus_not_admin:
  assumes "ObjectId_isValid orderId" and "map_of (orders s) (ObjectId_str orderId) = Some ord"
    and "userRole \<noteq> ''admin''"
  shows "updateStatus s orderId dto userId userRole now =
           (Inl (BadRequestException
              ''Failed to update order status: Cannot read properties of undefined (reading 'toString')''), s)"
  using assms
  by (simp add: updateStatus_def updateStatusBody_def canUpdateOrderStatus_def order_sellerId_def
      rethrowOrWrap_def Let_def)

lemma updateStatusBody_illegal:
  assumes "ObjectId_isValid orderId" and "map_of (orders s) (ObjectId_str orderId) = Some ord"
    and "us_status dto \<notin> set (validTransitions (o_status ord))"
  shows "snd (updateStatusBody s orderId dto userId userRole now) = s"
    and "isl (fst (updateStatusBody s orderId dto userId userRole now))"
    and "canUpdateOrderStatus ord userId userRole (us_status dto) = Inr True \<Longrightarrow>
         fst (updateStatusBody s orderId dto userId userRole now) =
           Inl (BadRequestException
             (''Invalid status transition from '' @ OrderStatus_str (o_status ord)
                @ '' to '' @ OrderStatus_str (us_status dto)))"
  using assms
  by (auto simp: updateStatusBody_def validateStatusTransition_def split: sum.splits)

text \<open>
  Claim C3 (as amended). For an existing order and a pair of statuses that is not a row
  of the transition table, \<^verbatim>\<open>updateStatus\<close> fails with a \<^verbatim>\<open>BadRequestException\<close> or a
  \<^verbatim>\<open>ForbiddenException\<close> and leaves the whole store (the order, its items, the products)
  as it was; when the actor passes the permission check, the error is the
  \<^verbatim>\<open>BadRequestException\<close> that names the current and the target status.
\<close>

theorem updateStatus_illegal_transition:
  assumes "ObjectId_isValid orderId" and "map_of (orders s) (ObjectId_str orderId) = Some ord"
    and "us_status dto \<notin> set (validTransitions (o_status ord))"
  shows "snd (updateStatus s orderId dto userId userRole now) = s
    \<and> (\<exists>e. fst (updateStatus s orderId dto userId userRole now) = Inl e
           \<and> (isBadRequest e \<or> isForbidden e))
    \<and> (canUpdateOrderStatus ord userId userRole (us_status dto) = Inr True \<longrightarrow>
         fst (updateStatus s orderId dto userId userRole now) =
           Inl (BadRequestException
             (''Invalid status transition from '' @ OrderStatus_str (o_status ord)
                @ '' to '' @ OrderStatus_str (us_status dto))))"
proof -
  obtain r s' where b: "updateStatusBody s orderId dto userId userRole now = (r, s')"
    by (cases "updateStatusBody s orderId dto userId userRole now")
  from updateStatusBody_illegal [OF assms, of userId userRole now] b
  have s': "s' = s" and l: "isl r"
    and v: "canUpdateOrderStatus ord userId userRole (us_status dto) = Inr True \<Longrightarrow>
         r = Inl (BadRequestException
             (''Invalid status transition from '' @ OrderStatus_str (o_status ord)
                @ '' to '' @ OrderStatus_str (us_status dto)))"
    by simp_all
  from l obtain e where e: "r = Inl e" by (cases r) auto
  have k: "isBadRequest (rethrowOrWrap (\<lambda>x. isNotFound x \<or> isForbidden x \<or> isBadRequest x)
                  ''Failed to update order status: '' e)
         \<or> isForbidden (rethrowOrWrap (\<lambda>x. isNotFound x \<or> isForbidden x \<or> isBadRequest x)
                  ''Failed to update order status: '' e)"
    using b e assms
    by (cases e) (auto simp: rethrowOrWrap_def updateStatusBody_def validateStatusTransition_def
        canUpdateOrderStatus_def order_sellerId_def Let_def split: sum.splits if_splits)
  show ?thesis
    using b s' e k v
    by (auto simp: updateStatus_def rethrowOrWrap_def)
qed

theorem updateStatus_illegal_transition_witness:
  "ObjectId_isValid ex_orderId
   \<and> (\<exists>ord. map_of (orders ex_cancelled) (ObjectId_str ex_orderId) = Some ord
          \<and> o_status ord = CANCELLED
          \<and> us_status (ex_toStatus PENDING) \<notin> set (validTransitions (o_status ord))
          \<and> canUpdateOrderStatus ord ex_admin ''admin'' (us_status (ex_toStatus PENDING)) = Inr True)
   \<and> snd (updateStatus ex_cancelled ex_orderId (ex_toStatus PENDING) ex_admin ''admin'' ex_evening)
       = ex_cancelled
   \<and> fst (updateStatus ex_cancelled ex_orderId (ex_toStatus PENDING) ex_admin ''admin'' ex_evening)
       = Inl (BadRequestException ''Invalid status transition from cancelled to pending'')"
proof -
  let ?ord = "the (map_of (orders ex_cancelled) (ObjectId_str ex_orderId))"
  have v: "ObjectId_isValid ex_orderId"
    by code_simp
  have "map_of (orders ex_cancelled) (ObjectId_str ex_orderId) \<noteq> None"
    by code_simp
  then have ord: "map_of (orders ex_cancelled) (ObjectId_str ex_orderId) = Some ?ord"
    by auto
  have st: "o_status ?ord = CANCELLED"
    by code_simp
  then have ill: "us_status (ex_toStatus PENDING) \<notin> set (validTransitions (o_status ?ord))"
    by (simp add: ex_toStatus_def)
  have can: "canUpdateOrderStatus ?ord ex_admin ''admin'' (us_status (ex_toStatus PENDING)) = Inr True"
    by (simp add: canUpdateOrderStatus_def)
  from updateStatus_illegal_transition [OF v ord ill, of ex_admin "''admin''" ex_evening] can st
  have "snd (updateStatus ex_cancelled ex_orderId (ex_toStatus PENDING) ex_admin ''admin'' ex_evening)
          = ex_cancelled"
    and "fst (updateStatus ex_cancelled ex_orderId (ex_toStatus PENDING) ex_admin ''admin'' ex_evening)
          = Inl (BadRequestException ''Invalid status transition from cancelled to pending'')"
    by (simp_all add: ex_toStatus_def)
  with v ord st ill can show ?thesis
    by blast
qed

text \<open>
  Claim C3 as stated fails for an actor who is not an administrator: the buyer who asks
  to move the cancelled order back to PENDING gets an error that names neither status.
\<close>

theorem updateStatus_illegal_transition_counterexample:
  "fst (updateStatus ex_cancelled ex_orderId (ex_toStatus PENDING) ex_buyer ''user'' ex_evening)
     = Inl (BadRequestException
         ''Failed to update order status: Cannot read properties of undefined (reading 'toString')'')
   \<and> fst (updateStatus ex_cancelled ex_orderId (ex_toStatus PENDING) ex_buyer ''user'' ex_evening)
     \<noteq> Inl (BadRequestException ''Invalid status transition from cancelled to pending'')"
  by code_simp

text \<open>
  Claim C7 at its failing inputs. The buyer of a pending order who asks for CANCELLED is
  not permitted: \<^verbatim>\<open>canUpdateOrderStatus\<close> reads \<^verbatim>\<open>order.sellerId\<close>, which the schema does
  not have, and the TypeError leaves \<^verbatim>\<open>updateStatus\<close> as a \<^verbatim>\<open>BadRequestException\<close>, through
  \<^verbatim>\<open>cancelOrder\<close> as well; a user who is neither buyer nor seller and asks for SHIPPED gets
  the same \<^verbatim>\<open>BadRequestException\<close>, not a \<^verbatim>\<open>ForbiddenException\<close>. The store is unchanged.
\<close>

theorem updateStatus_non_admin_fails:
  "updateStatus ex_shop ex_orderId (ex_toStatus CANCELLED) ex_buyer ''user'' ex_later
     = (Inl (BadRequestException
          ''Failed to update order status: Cannot read properties of undefined (reading 'toString')''),
        ex_shop)
   \<and> cancelOrder ex_shop ex_orderId ''Ordered by mistake'' ex_buyer ex_later
     = (Inl (BadRequestException
          ''Failed to update order status: Cannot read properties of undefined (reading 'toString')''),
        ex_shop)
   \<and> updateStatus ex_shop ex_orderId (ex_toStatus SHIPPED) ex_sellerB ''user'' ex_later
     = (Inl (BadRequestException
          ''Failed to update order status: Cannot read properties of undefined (reading 'toString')''),
        ex_shop)"
  by code_simp

subsection \<open>Payment confirmation and stock\<close>









lemma confirmPayment_result:
  assumes "ObjectId_isValid orderId" and "map_of (orders s) (ObjectId_str orderId) = Some ord"
  shows "confirmPayment s orderId paymentData now =
    (Inr (),
     s\<lparr> orders := AList.update (ObjectId_str orderId)
           (confirmedOrder ord paymentData now)
           (orders s),
        orderItems := map (\<lambda>item. if oi_orderId item = ObjectId_str orderId
                                   then item\<lparr> oi_itemStatus := ''confirmed'' \<rparr> else item) (orderItems s),
        products := fold (\<lambda>item. updateProductAfterPayment (oi_productId item) (oi_quantity item) now)
                      (itemsOfOrder s (ObjectId_str orderId)) (products s) \<rparr>)"
  using assms
  by (simp add: confirmPayment_def findById_def Let_def confirmedOrder_def)









subsection \<open>Seller payouts\<close>


















subsection \<open>Payments: verification and webhooks\<close>

lemma find_Some_mem: "find Q xs = Some x \<Longrightarrow> x \<in> set xs \<and> Q x"
  by (induction xs) (auto split: if_splits)

lemma findOne_map_of:
  assumes "distinct (map fst coll)" and "findOne P coll = Some (k, v)"
  shows "map_of coll k = Some v" and "P v"
proof -
  from find_Some_mem [of "\<lambda>e. P (snd e)" coll "(k, v)"] assms(2)
  have m: "(k, v) \<in> set coll" and p: "P v"
    by (simp_all add: findOne_def)
  from assms(1) m show "map_of coll k = Some v"
    by simp
  from p show "P v" .
qed

lemma map_of_findByIdAndUpdate:
  "map_of (findByIdAndUpdate i f coll) k =
     (if k = i then map_option f (map_of coll k) else map_of coll k)"
  by (auto simp: findByIdAndUpdate_def map_of_map_entry split: option.splits)

lemma confirmPayment_frame:
  "payments (snd (confirmPayment s orderId paymentData now)) = payments s"
  "gatewayCalls (snd (confirmPayment s orderId paymentData now)) = gatewayCalls s"
  "users (snd (confirmPayment s orderId paymentData now)) = users s"
  by (simp_all add: confirmPayment_def Let_def split: sum.splits option.splits)

lemma verifyPayment_failed_unfold:
  assumes "findOne (\<lambda>p. pay_reference p = reference) (payments s) = Some (key, payment)"
    and "pay_status payment = PAY_FAILED" and "pay_gateway payment = PAYSTACK"
    and "gw reference = Inr vr" and "vr_status vr" and "d_status (vr_data vr) = ''success''"
  shows "verifyPaymentBody gw s reference now =
    (case confirmPayment
            (s\<lparr> gatewayCalls := gatewayCalls s @ [reference],
                payments := findByIdAndUpdate key (completedPayment payment (vr_data vr) now) (payments s) \<rparr>)
            (pay_orderId payment)
            \<lparr> pdt_reference = pay_reference payment,
              pdt_method = mapPayStackChannelToMethod (d_channel (vr_data vr)),
              pdt_gateway = PAYSTACK \<rparr> now of
       (Inl e, s1) \<Rightarrow> (Inl e, s1)
     | (Inr u, s1) \<Rightarrow>
         (case map_of (payments s1) key of
            None \<Rightarrow> (Inl (TypeError ''Cannot read properties of null (reading 'status')''), s1)
          | Some updatedPayment \<Rightarrow>
              (Inr (verificationResultOf
                      (if pay_status updatedPayment = PAY_COMPLETED
                       then ''Payment verified successfully''
                       else ''Payment verification failed'')
                      updatedPayment), s1)))"
  using assms
  by (simp add: verifyPaymentBody_def paystackVerify_def processPaymentVerification_def Let_def)

lemma verifyPayment_snd: "snd (verifyPayment gw s reference now) = snd (verifyPaymentBody gw s reference now)"
  by (cases "verifyPaymentBody gw s reference now") (auto simp: verifyPayment_def split: sum.splits)

lemma verifyPayment_fst_Inr:
  "fst (verifyPaymentBody gw s reference now) = Inr r \<Longrightarrow> fst (verifyPayment gw s reference now) = Inr r"
  by (cases "verifyPaymentBody gw s reference now") (auto simp: verifyPayment_def)

lemma processPaymentVerification_gatewayCalls:
  "gatewayCalls (snd (processPaymentVerification s key payment vr now)) = gatewayCalls s"
  by (simp add: processPaymentVerification_def Let_def confirmPayment_frame)

lemma verifyPaymentBody_snd:
  assumes "findOne (\<lambda>p. pay_reference p = reference) (payments s) = Some (key, payment)"
    and "pay_status payment \<noteq> PAY_COMPLETED" and "pay_gateway payment = PAYSTACK"
  shows "snd (verifyPaymentBody gw s reference now) =
     (case gw reference of
        Inl msg \<Rightarrow> s\<lparr> gatewayCalls := gatewayCalls s @ [reference] \<rparr>
      | Inr vr \<Rightarrow> snd (processPaymentVerification
                        (s\<lparr> gatewayCalls := gatewayCalls s @ [reference] \<rparr>) key payment vr now))"
  using assms
  by (simp add: verifyPaymentBody_def paystackVerify_def Let_def
      split: sum.splits prod.splits option.splits)

lemma verifyPayment_calls_gateway:
  assumes "findOne (\<lambda>p. pay_reference p = reference) (payments s) = Some (key, payment)"
    and "pay_status payment \<noteq> PAY_COMPLETED" and "pay_gateway payment = PAYSTACK"
  shows "gatewayCalls (snd (verifyPayment gw s reference now)) = gatewayCalls s @ [reference]"
  by (simp add: verifyPayment_snd verifyPaymentBody_snd [OF assms]
      processPaymentVerification_gatewayCalls split: sum.splits)

lemma handlePayStackWebhook_rejects:
  assumes "\<not> verifyWebhookSignature hmacSha512Hex secretKey (JSON_stringify webhookData) signature"
  shows "handlePayStackWebhook hmacSha512Hex JSON_stringify secretKey s webhookData signature now
           = (Inl (BadRequestException ''Webhook processing failed: Invalid webhook signature''), s)"
  using assms
  by (simp add: handlePayStackWebhook_def handlePayStackWebhookBody_def)

lemma handlePayStackWebhook_accepts:
  assumes "verifyWebhookSignature hmacSha512Hex secretKey (JSON_stringify webhookData) signature"
  shows "fst (handlePayStackWebhook hmacSha512Hex JSON_stringify secretKey s webhookData signature now)
           = Inr ()"
  using assms
  by (simp add: handlePayStackWebhook_def handlePayStackWebhookBody_def)

text \<open>Every operation that stores payments keeps them with the PayStack gateway:
  \<^verbatim>\<open>initializePayment\<close> rejects any other gateway before it creates the payment, and the
  updates of verification and of the webhook handlers leave the gateway as it is.\<close>

lemma paystackOnly_found:
  assumes "paystackOnly s" and "findOne P (payments s) = Some (key, payment)"
  shows "pay_gateway payment = PAYSTACK"
proof -
  from assms(2) have "(key, payment) \<in> set (payments s)"
    unfolding findOne_def by (rule find_Some_mem [THEN conjunct1])
  with assms(1) show ?thesis
    by (auto simp: paystackOnly_def list_all_iff)
qed

lemma findByIdAndUpdate_all:
  "list_all (\<lambda>e. Q (snd e)) coll \<Longrightarrow> (\<And>v. Q v \<Longrightarrow> Q (f v)) \<Longrightarrow>
   list_all (\<lambda>e. Q (snd e)) (findByIdAndUpdate i f coll)"
  by (induction coll) (auto simp: findByIdAndUpdate_def)

lemma processPaymentVerification_paystackOnly:
  assumes "paystackOnly s"
  shows "paystackOnly (snd (processPaymentVerification s key payment vr now))"
proof -
  have a: "list_all (\<lambda>e. pay_gateway (snd e) = PAYSTACK)
             (findByIdAndUpdate key (completedPayment payment (vr_data vr) now) (payments s))"
    using assms unfolding paystackOnly_def
    by (rule findByIdAndUpdate_all) (simp add: completedPayment_def)
  have b: "list_all (\<lambda>e. pay_gateway (snd e) = PAYSTACK)
             (findByIdAndUpdate key (failedPayment (vr_data vr) now) (payments s))"
    using assms unfolding paystackOnly_def
    by (rule findByIdAndUpdate_all) (simp add: failedPayment_def)
  show ?thesis
    using a b by (simp add: processPaymentVerification_def Let_def paystackOnly_def confirmPayment_frame)
qed

lemma verifyPayment_paystackOnly:
  assumes "paystackOnly s"
  shows "paystackOnly (snd (verifyPayment gw s reference now))"
proof -
  have g: "\<And>x. paystackOnly (s\<lparr> gatewayCalls := x \<rparr>)"
    using assms by (simp add: paystackOnly_def)
  have "paystackOnly (snd (verifyPaymentBody gw s reference now))"
  proof (cases "findOne (\<lambda>p. pay_reference p = reference) (payments s)")
    case None
    with assms show ?thesis by (simp add: verifyPaymentBody_def)
  next
    case (Some e)
    obtain key payment where e: "e = (key, payment)" by (cases e)
    show ?thesis
    proof (cases "pay_status payment \<noteq> PAY_COMPLETED \<and> pay_gateway payment = PAYSTACK")
      case True
      with Some e have f: "findOne (\<lambda>p. pay_reference p = reference) (payments s) = Some (key, payment)"
        and n: "pay_status payment \<noteq> PAY_COMPLETED" and p: "pay_gateway payment = PAYSTACK"
        by simp_all
      show ?thesis
        by (simp add: verifyPaymentBody_snd [OF f n p] g processPaymentVerification_paystackOnly
            split: sum.splits)
    next
      case False
      with Some e assms show ?thesis
        by (cases "pay_gateway payment") (auto simp: verifyPaymentBody_def)
    qed
  qed
  then show ?thesis by (simp add: verifyPayment_snd)
qed

lemma handlePayStackWebhook_paystackOnly:
  assumes "paystackOnly s"
  shows "paystackOnly (snd (handlePayStackWebhook hmacSha512Hex JSON_stringify secretKey s webhookData
                              signature now))"
proof -
  have a: "paystackOnly (handleSuccessfulPayment s (wh_data webhookData) now)"
    using assms
    by (simp add: handleSuccessfulPayment_def processPaymentVerification_paystackOnly
        split: option.splits prod.splits)
  have "list_all (\<lambda>e. pay_gateway (snd e) = PAYSTACK)
          (findByIdAndUpdate key (failedPayment (wh_data webhookData) now) (payments s))" for key
    using assms unfolding paystackOnly_def
    by (rule findByIdAndUpdate_all) (simp add: failedPayment_def)
  then have b: "paystackOnly (handleFailedPayment s (wh_data webhookData) now)"
    using assms
    by (simp add: handleFailedPayment_def paystackOnly_def split: option.splits prod.splits)
  show ?thesis
    using assms a b
    by (simp add: handlePayStackWebhook_def handlePayStackWebhookBody_def Let_def)
qed

lemma initializePayment_paystackOnly:
  assumes "paystackOnly s"
  shows "paystackOnly (snd (initializePayment gw s dto userId origin reference newId now thirtyMinutesAgo))"
proof -
  have ex: "list_all (\<lambda>e. pay_gateway (snd e) = PAYSTACK)
          (findByIdAndUpdate k (\<lambda>doc. doc\<lparr> pay_status := PAY_FAILED,
                                            pay_failureReason := Some ''Payment expired'',
                                            pay_failedAt := Some now \<rparr>) (payments s))" for k
    using assms unfolding paystackOnly_def
    by (rule findByIdAndUpdate_all) simp
  have "paystackOnly (snd (initializePaymentBody gw s dto userId origin reference newId now thirtyMinutesAgo))"
    using assms ex
    by (auto simp: initializePaymentBody_def Let_def paystackOnly_def newPayment_def
        split: option.splits prod.splits sum.splits if_splits PaymentGateway.splits)
  then show ?thesis
    by (cases "initializePaymentBody gw s dto userId origin reference newId now thirtyMinutesAgo")
      (auto simp: initializePayment_def split: sum.splits)
qed



text \<open>
  Claim C10. For a payment of the PayStack gateway whose status is FAILED,
  \<^verbatim>\<open>verifyPayment\<close> calls the gateway with the reference; when the gateway answers with a
  successful transaction, the stored payment becomes the completed payment (status
  COMPLETED), the new store is the one \<^verbatim>\<open>confirmPayment\<close> leaves for the payment's order,
  and when that order exists the call returns the completed payment as verified and the
  order is the confirmed order. The webhook handlers \<^verbatim>\<open>handleSuccessfulPayment\<close> and
  \<^verbatim>\<open>handleFailedPayment\<close>, given data with the same reference, leave the store as it is.
\<close>

theorem verifyPayment_failed_payment:
  assumes found: "findOne (\<lambda>p. pay_reference p = reference) (payments s) = Some (key, payment)"
    and ids: "distinct (map fst (payments s))"
    and failed: "pay_status payment = PAY_FAILED"
    and paystack: "pay_gateway payment = PAYSTACK"
  shows "gatewayCalls (snd (verifyPayment gw s reference now)) = gatewayCalls s @ [reference]
    \<and> (\<forall>vr. gw reference = Inr vr \<and> vr_status vr \<and> d_status (vr_data vr) = ''success'' \<longrightarrow>
          (\<exists>p'. map_of (payments (snd (verifyPayment gw s reference now))) key = Some p'
                 \<and> p' = completedPayment payment (vr_data vr) now payment
                 \<and> pay_status p' = PAY_COMPLETED)
          \<and> snd (verifyPayment gw s reference now)
              = snd (confirmPayment
                       (s\<lparr> gatewayCalls := gatewayCalls s @ [reference],
                           payments := findByIdAndUpdate key
                                         (completedPayment payment (vr_data vr) now) (payments s) \<rparr>)
                       (pay_orderId payment)
                       \<lparr> pdt_reference = pay_reference payment,
                         pdt_method = mapPayStackChannelToMethod (d_channel (vr_data vr)),
                         pdt_gateway = PAYSTACK \<rparr> now)
          \<and> (\<forall>ord. ObjectId_isValid (pay_orderId payment)
                   \<and> map_of (orders s) (ObjectId_str (pay_orderId payment)) = Some ord \<longrightarrow>
                fst (verifyPayment gw s reference now)
                  = Inr (verificationResultOf ''Payment verified successfully''
                           (completedPayment payment (vr_data vr) now payment))
                \<and> map_of (orders (snd (verifyPayment gw s reference now)))
                      (ObjectId_str (pay_orderId payment))
                    = Some (confirmedOrder ord
                              \<lparr> pdt_reference = pay_reference payment,
                                pdt_method = mapPayStackChannelToMethod (d_channel (vr_data vr)),
                                pdt_gateway = PAYSTACK \<rparr> now)))
    \<and> (\<forall>(d::paystack_data) t. d_reference d = reference \<longrightarrow>
          handleSuccessfulPayment s d t = s \<and> handleFailedPayment s d t = s)"
proof (intro conjI allI impI)
  show "gatewayCalls (snd (verifyPayment gw s reference now)) = gatewayCalls s @ [reference]"
    using found failed paystack by (intro verifyPayment_calls_gateway) simp_all
next
  fix d :: paystack_data and t
  assume "d_reference d = reference"
  then show "handleSuccessfulPayment s d t = s" and "handleFailedPayment s d t = s"
    using found failed by (simp_all add: handleSuccessfulPayment_def handleFailedPayment_def)
next
  fix vr
  assume ok: "gw reference = Inr vr \<and> vr_status vr \<and> d_status (vr_data vr) = ''success''"
  let ?pd = "\<lparr> pdt_reference = pay_reference payment,
               pdt_method = mapPayStackChannelToMethod (d_channel (vr_data vr)),
               pdt_gateway = PAYSTACK \<rparr>"
  let ?s1 = "s\<lparr> gatewayCalls := gatewayCalls s @ [reference],
                payments := findByIdAndUpdate key (completedPayment payment (vr_data vr) now) (payments s) \<rparr>"
  let ?c = "confirmPayment ?s1 (pay_orderId payment) ?pd now"
  from ok have u: "verifyPaymentBody gw s reference now =
    (case ?c of
       (Inl e, s1) \<Rightarrow> (Inl e, s1)
     | (Inr u, s1) \<Rightarrow>
         (case map_of (payments s1) key of
            None \<Rightarrow> (Inl (TypeError ''Cannot read properties of null (reading 'status')''), s1)
          | Some updatedPayment \<Rightarrow>
              (Inr (verificationResultOf
                      (if pay_status updatedPayment = PAY_COMPLETED
                       then ''Payment verified successfully''
                       else ''Payment verification failed'')
                      updatedPayment), s1)))"
    by (intro verifyPayment_failed_unfold [OF found failed paystack]) simp_all
  have pk: "map_of (payments s) key = Some payment"
    by (rule findOne_map_of(1) [OF ids found])
  have pays: "payments (snd ?c) = payments ?s1"
    by (rule confirmPayment_frame)
  have stored: "map_of (payments (snd ?c)) key = Some (completedPayment payment (vr_data vr) now payment)"
    by (simp add: pays map_of_findByIdAndUpdate pk)
  have st: "snd (verifyPayment gw s reference now) = snd ?c"
    by (simp add: verifyPayment_snd u split: prod.splits sum.splits option.splits)
  show "\<exists>p'. map_of (payments (snd (verifyPayment gw s reference now))) key = Some p'
                 \<and> p' = completedPayment payment (vr_data vr) now payment
                 \<and> pay_status p' = PAY_COMPLETED"
    by (simp add: st stored completedPayment_def)
  show "snd (verifyPayment gw s reference now) = snd ?c"
    by (rule st)
  fix ord
  assume o: "ObjectId_isValid (pay_orderId payment)
                   \<and> map_of (orders s) (ObjectId_str (pay_orderId payment)) = Some ord"
  then have v: "ObjectId_isValid (pay_orderId payment)"
    and o1: "map_of (orders ?s1) (ObjectId_str (pay_orderId payment)) = Some ord"
    by simp_all
  note c = confirmPayment_result [OF v o1, of ?pd now]
  have "fst (verifyPaymentBody gw s reference now)
          = Inr (verificationResultOf ''Payment verified successfully''
                   (completedPayment payment (vr_data vr) now payment))"
    using stored by (simp add: u c completedPayment_def)
  then show "fst (verifyPayment gw s reference now)
                  = Inr (verificationResultOf ''Payment verified successfully''
                           (completedPayment payment (vr_data vr) now payment))"
    by (rule verifyPayment_fst_Inr)
  show "map_of (orders (snd (verifyPayment gw s reference now))) (ObjectId_str (pay_orderId payment))
                    = Some (confirmedOrder ord ?pd now)"
    by (simp add: st c update_conv')
qed

text \<open>The first payment of the scenario was marked failed as expired; its verification in
  the evening completes it and confirms the order.\<close>

theorem verifyPayment_failed_payment_witness:
  "\<exists>payment ord.
      findOne (\<lambda>p. pay_reference p = ex_ref1) (payments ex_paying2) = Some (ex_payId1, payment)
    \<and> distinct (map fst (payments ex_paying2))
    \<and> pay_status payment = PAY_FAILED
    \<and> pay_failureReason payment = Some ''Payment expired''
    \<and> pay_gateway payment = PAYSTACK
    \<and> map_of (orders ex_paying2) (ObjectId_str (pay_orderId payment)) = Some ord
    \<and> gatewayCalls ex_paid = gatewayCalls ex_paying2 @ [ex_ref1]
    \<and> map_of (payments ex_paid) ex_payId1
        = Some (completedPayment payment (ex_paidData ex_ref1) ex_evening payment)
    \<and> fst (verifyPayment ex_gwVerify ex_paying2 ex_ref1 ex_evening)
        = Inr (verificationResultOf ''Payment verified successfully''
                 (completedPayment payment (ex_paidData ex_ref1) ex_evening payment))
    \<and> map_of (orders ex_paid) (ObjectId_str (pay_orderId payment))
        = Some (confirmedOrder ord
                  \<lparr> pdt_reference = pay_reference payment,
                    pdt_method = mapPayStackChannelToMethod (d_channel (ex_paidData ex_ref1)),
                    pdt_gateway = PAYSTACK \<rparr> ex_evening)
    \<and> handleSuccessfulPayment ex_paying2 (ex_paidData ex_ref1) ex_evening = ex_paying2
    \<and> handleFailedPayment ex_paying2 (ex_paidData ex_ref1) ex_evening = ex_paying2"
proof -
  let ?f = "findOne (\<lambda>p. pay_reference p = ex_ref1) (payments ex_paying2)"
  let ?p = "snd (the ?f)"
  let ?o = "map_of (orders ex_paying2) (ObjectId_str (pay_orderId ?p))"
  have "?f \<noteq> None" and "fst (the ?f) = ex_payId1"
    by code_simp+
  then have f: "?f = Some (ex_payId1, ?p)"
    by (cases ?f) auto
  have ids: "distinct (map fst (payments ex_paying2))"
    and st: "pay_status ?p = PAY_FAILED"
    and why: "pay_failureReason ?p = Some ''Payment expired''"
    and gw: "pay_gateway ?p = PAYSTACK"
    and v: "ObjectId_isValid (pay_orderId ?p)"
    by code_simp+
  have "?o \<noteq> None"
    by code_simp
  then have ord: "?o = Some (the ?o)"
    by simp
  have ok: "ex_gwVerify ex_ref1 = Inr \<lparr> vr_status = True, vr_data = ex_paidData ex_ref1 \<rparr>
            \<and> vr_status \<lparr> vr_status = True, vr_data = ex_paidData ex_ref1 \<rparr>
            \<and> d_status (vr_data \<lparr> vr_status = True, vr_data = ex_paidData ex_ref1 \<rparr>) = ''success''"
    by (simp add: ex_gwVerify_def ex_paidData_def)
  have r: "d_reference (ex_paidData ex_ref1) = ex_ref1"
    by (simp add: ex_paidData_def)
  note t = verifyPayment_failed_payment [OF f ids st gw, of ex_gwVerify ex_evening]
  from t have calls: "gatewayCalls ex_paid = gatewayCalls ex_paying2 @ [ex_ref1]"
    unfolding ex_paid_def by (rule conjunct1)
  from t r have hooks:
    "handleSuccessfulPayment ex_paying2 (ex_paidData ex_ref1) ex_evening = ex_paying2"
    "handleFailedPayment ex_paying2 (ex_paidData ex_ref1) ex_evening = ex_paying2"
    by blast+
  note t2 = t [THEN conjunct2, THEN conjunct1, THEN spec, THEN mp, OF ok,
      unfolded verify_response.select_convs, folded ex_paid_def]
  from t2 have stored: "map_of (payments ex_paid) ex_payId1
        = Some (completedPayment ?p (ex_paidData ex_ref1) ex_evening ?p)"
    by blast
  from t2 v ord have res:
    "fst (verifyPayment ex_gwVerify ex_paying2 ex_ref1 ex_evening)
        = Inr (verificationResultOf ''Payment verified successfully''
                 (completedPayment ?p (ex_paidData ex_ref1) ex_evening ?p))"
    "map_of (orders ex_paid) (ObjectId_str (pay_orderId ?p))
        = Some (confirmedOrder (the ?o)
                  \<lparr> pdt_reference = pay_reference ?p,
                    pdt_method = mapPayStackChannelToMethod (d_channel (ex_paidData ex_ref1)),
                    pdt_gateway = PAYSTACK \<rparr> ex_evening)"
    by blast+
  from f ids st why gw ord calls stored res hooks show ?thesis
    by blast
qed

text \<open>
  Claim C8 (as amended). A webhook whose signature does not pass the check of
  \<^verbatim>\<open>verifyWebhookSignature\<close> is rejected by \<^verbatim>\<open>handlePayStackWebhook\<close> with a
  \<^verbatim>\<open>BadRequestException\<close> and the store is returned as it was; a request to the controller
  changes the store only if it carries a signature and a body that parses to a payload
  passing the check; and every error of the controller is a \<^verbatim>\<open>BadRequestException\<close> that
  leaves the store as it was.
\<close>

theorem webhook_signature_gate:
  "(\<not> verifyWebhookSignature hmacSha512Hex secretKey (JSON_stringify webhookData) sig \<longrightarrow>
      handlePayStackWebhook hmacSha512Hex JSON_stringify secretKey s webhookData sig now
        = (Inl (BadRequestException ''Webhook processing failed: Invalid webhook signature''), s))
   \<and> (snd (paystackWebhook hmacSha512Hex JSON_parse JSON_stringify secretKey s rawBody signature now) \<noteq> s
        \<longrightarrow> (\<exists>sg body w. signature = Some sg \<and> rawBody = Some body \<and> JSON_parse body = Some w
               \<and> verifyWebhookSignature hmacSha512Hex secretKey (JSON_stringify w) sg))
   \<and> (\<forall>e. fst (paystackWebhook hmacSha512Hex JSON_parse JSON_stringify secretKey s rawBody signature now)
               = Inl e
          \<longrightarrow> isBadRequest e \<and> snd (paystackWebhook hmacSha512Hex JSON_parse JSON_stringify secretKey s
                                      rawBody signature now) = s)"
proof (intro conjI impI allI)
  assume "\<not> verifyWebhookSignature hmacSha512Hex secretKey (JSON_stringify webhookData) sig"
  then show "handlePayStackWebhook hmacSha512Hex JSON_stringify secretKey s webhookData sig now
        = (Inl (BadRequestException ''Webhook processing failed: Invalid webhook signature''), s)"
    by (rule handlePayStackWebhook_rejects [where JSON_stringify = JSON_stringify and webhookData = webhookData])
next
  assume ch: "snd (paystackWebhook hmacSha512Hex JSON_parse JSON_stringify secretKey s rawBody signature now) \<noteq> s"
  show "\<exists>sg body w. signature = Some sg \<and> rawBody = Some body \<and> JSON_parse body = Some w
               \<and> verifyWebhookSignature hmacSha512Hex secretKey (JSON_stringify w) sg"
  proof (rule ccontr)
    assume n: "\<not> (\<exists>sg body w. signature = Some sg \<and> rawBody = Some body \<and> JSON_parse body = Some w
               \<and> verifyWebhookSignature hmacSha512Hex secretKey (JSON_stringify w) sg)"
    have "snd (paystackWebhook hmacSha512Hex JSON_parse JSON_stringify secretKey s rawBody signature now) = s"
    proof (cases signature)
      case None
      then show ?thesis by (simp add: paystackWebhook_def paystackWebhookBody_def truthy_def)
    next
      case (Some sg)
      show ?thesis
      proof (cases rawBody)
        case None
        then show ?thesis by (simp add: paystackWebhook_def paystackWebhookBody_def)
      next
        case body: (Some body)
        show ?thesis
        proof (cases "JSON_parse body")
          case None
          with body show ?thesis by (simp add: paystackWebhook_def paystackWebhookBody_def)
        next
          case w: (Some w)
          with n Some body
          have "\<not> verifyWebhookSignature hmacSha512Hex secretKey (JSON_stringify w) sg"
            by simp
          from handlePayStackWebhook_rejects [where JSON_stringify = JSON_stringify and webhookData = w and s = s and now = now, OF this] Some body w show ?thesis
            by (simp add: paystackWebhook_def paystackWebhookBody_def)
        qed
      qed
    qed
    with ch show False by simp
  qed
next
  fix e
  assume e: "fst (paystackWebhook hmacSha512Hex JSON_parse JSON_stringify secretKey s rawBody signature now) = Inl e"
  then show "isBadRequest e"
    by (auto simp: paystackWebhook_def split: prod.splits sum.splits)
  show "snd (paystackWebhook hmacSha512Hex JSON_parse JSON_stringify secretKey s rawBody signature now) = s"
  proof (cases "\<exists>sg body w. signature = Some sg \<and> rawBody = Some body \<and> JSON_parse body = Some w
               \<and> verifyWebhookSignature hmacSha512Hex secretKey (JSON_stringify w) sg")
    case True
    then obtain sg body w where "signature = Some sg" "rawBody = Some body" "JSON_parse body = Some w"
      and ok: "verifyWebhookSignature hmacSha512Hex secretKey (JSON_stringify w) sg"
      by blast
    with handlePayStackWebhook_accepts [where JSON_stringify = JSON_stringify and webhookData = w and s = s and now = now, OF ok] e show ?thesis
      by (auto simp: paystackWebhook_def paystackWebhookBody_def truthy_def
          split: prod.splits sum.splits if_splits)
  next
    case False
    show ?thesis
    proof (cases signature)
      case None
      then show ?thesis by (simp add: paystackWebhook_def paystackWebhookBody_def truthy_def)
    next
      case (Some sg)
      show ?thesis
      proof (cases rawBody)
        case None
        then show ?thesis by (simp add: paystackWebhook_def paystackWebhookBody_def)
      next
        case body: (Some body)
        show ?thesis
        proof (cases "JSON_parse body")
          case None
          with body show ?thesis by (simp add: paystackWebhook_def paystackWebhookBody_def)
        next
          case w: (Some w)
          with False Some body
          have "\<not> verifyWebhookSignature hmacSha512Hex secretKey (JSON_stringify w) sg"
            by simp
          from handlePayStackWebhook_rejects [where JSON_stringify = JSON_stringify and webhookData = w and s = s and now = now, OF this] Some body w show ?thesis
            by (simp add: paystackWebhook_def paystackWebhookBody_def)
        qed
      qed
    qed
  qed
qed

text \<open>A request for the pending payment of the scenario: with the signature of its payload
  the store changes, with another signature it is rejected.\<close>

theorem webhook_signature_gate_witness:
  "\<not> verifyWebhookSignature ex_hmac ex_secret (ex_stringify ex_webhook) ''deadbeef''
   \<and> handlePayStackWebhook ex_hmac ex_stringify ex_secret ex_paying2 ex_webhook ''deadbeef'' ex_evening
       = (Inl (BadRequestException ''Webhook processing failed: Invalid webhook signature''), ex_paying2)
   \<and> snd (paystackWebhook ex_hmac ex_parse ex_stringify ex_secret ex_paying2
             (Some (ex_stringify ex_webhook))
             (Some (ex_hmac ex_secret (ex_stringify ex_webhook))) ex_evening) \<noteq> ex_paying2
   \<and> verifyWebhookSignature ex_hmac ex_secret (ex_stringify ex_webhook)
        (ex_hmac ex_secret (ex_stringify ex_webhook))
   \<and> (\<exists>e. fst (paystackWebhook ex_hmac ex_parse ex_stringify ex_secret ex_paying2
                  (Some (ex_stringify ex_webhook)) (Some ''deadbeef'') ex_evening) = Inl e
          \<and> isBadRequest e)
   \<and> snd (paystackWebhook ex_hmac ex_parse ex_stringify ex_secret ex_paying2
             (Some (ex_stringify ex_webhook)) (Some ''deadbeef'') ex_evening) = ex_paying2"
proof -
  have bad: "\<not> verifyWebhookSignature ex_hmac ex_secret (ex_stringify ex_webhook) ''deadbeef''"
    by code_simp
  have good: "verifyWebhookSignature ex_hmac ex_secret (ex_stringify ex_webhook)
        (ex_hmac ex_secret (ex_stringify ex_webhook))"
    by (simp add: verifyWebhookSignature_def)
  have ch: "snd (paystackWebhook ex_hmac ex_parse ex_stringify ex_secret ex_paying2
             (Some (ex_stringify ex_webhook))
             (Some (ex_hmac ex_secret (ex_stringify ex_webhook))) ex_evening) \<noteq> ex_paying2"
    by code_simp
  have err: "isl (fst (paystackWebhook ex_hmac ex_parse ex_stringify ex_secret ex_paying2
                  (Some (ex_stringify ex_webhook)) (Some ''deadbeef'') ex_evening))"
    by code_simp
  then obtain e where e: "fst (paystackWebhook ex_hmac ex_parse ex_stringify ex_secret ex_paying2
                  (Some (ex_stringify ex_webhook)) (Some ''deadbeef'') ex_evening) = Inl e"
    by (auto simp: isl_def)
  note a = webhook_signature_gate [of ex_hmac ex_secret ex_stringify ex_webhook "''deadbeef''"
      ex_paying2 ex_evening ex_parse "Some (ex_stringify ex_webhook)" "Some ''deadbeef''"]
  from a bad e good ch show ?thesis
    by blast
qed

text \<open>
  Claim C8 as stated fails on the kind of error: the mismatching signature is rejected
  with a \<^verbatim>\<open>BadRequestException\<close>, not an authentication error. The digest is taken over
  \<^verbatim>\<open>JSON.stringify\<close> of the parsed body: a raw body with a trailing space, signed over the
  raw bytes, is rejected as well.
\<close>

theorem webhook_signature_counterexample:
  "\<not> verifyWebhookSignature ex_hmac ex_secret (ex_stringify ex_webhook) ''deadbeef''
   \<and> (case fst (handlePayStackWebhook ex_hmac ex_stringify ex_secret ex_paying2 ex_webhook
                  ''deadbeef'' ex_evening) of
        Inl e \<Rightarrow> e = BadRequestException ''Webhook processing failed: Invalid webhook signature''
                 \<and> \<not> isUnauthorized e
      | Inr r \<Rightarrow> False)
   \<and> (case fst (paystackWebhook ex_hmac ex_parse ex_stringify ex_secret ex_paying2
                  (Some (ex_stringify ex_webhook)) (Some ''deadbeef'') ex_evening) of
        Inl e \<Rightarrow> isBadRequest e \<and> \<not> isUnauthorized e
      | Inr r \<Rightarrow> False)
   \<and> ex_parseLenient (ex_stringify ex_webhook @ '' '') = Some ex_webhook
   \<and> isl (fst (paystackWebhook ex_hmac ex_parseLenient ex_stringify ex_secret ex_paying2
                 (Some (ex_stringify ex_webhook @ '' ''))
                 (Some (ex_hmac ex_secret (ex_stringify ex_webhook @ '' ''))) ex_evening))
   \<and> snd (paystackWebhook ex_hmac ex_parseLenient ex_stringify ex_secret ex_paying2
             (Some (ex_stringify ex_webhook @ '' ''))
             (Some (ex_hmac ex_secret (ex_stringify ex_webhook @ '' ''))) ex_evening) = ex_paying2"
  by code_simp

end
